theory Spec2Isabelle
  imports Complex_Main "HOL-Library.Multiset"
begin

section \<open>Errors raised by the script and by the library calls it makes\<close>

datatype error =
    ZeroDivisionError
  | ValueError
  | AssertionError
  | RuntimeError
  | IndexError

section \<open>Tensors and the library operations on them\<close>

text \<open>
  A tensor is its shape together with its elements, addressed by multi-indices. The
  elements are real numbers: the floating point arithmetic of the library is idealised to
  exact arithmetic. \<open>mk\<close> builds a tensor from an index function and fixes the value 0 outside
  of the shape, so that two tensors built by \<open>mk\<close> are equal when they agree on the valid
  indices.
\<close>

datatype tensor = Tensor (shape: "nat list") (elem: "nat list \<Rightarrow> real")

definition valid :: "nat list \<Rightarrow> nat list \<Rightarrow> bool" where
  "valid sh idx = list_all2 (<) idx sh"

definition mk :: "nat list \<Rightarrow> (nat list \<Rightarrow> real) \<Rightarrow> tensor" where
  "mk sh f = Tensor sh (\<lambda>idx. if valid sh idx then f idx else 0)"

definition ebind :: "error + 'a \<Rightarrow> ('a \<Rightarrow> error + 'b) \<Rightarrow> error + 'b" where
  "ebind v k = (case v of Inl e \<Rightarrow> Inl e | Inr a \<Rightarrow> k a)"

text \<open>\<open>x.size(0)\<close>: the first dimension; a tensor of rank 0 has none.\<close>

definition size0 :: "tensor \<Rightarrow> error + nat" where
  "size0 x = (case shape x of [] \<Rightarrow> Inl IndexError | b # rest \<Rightarrow> Inr b)"

text \<open>\<open>t.expand(n, -1, -1)\<close>: only a first dimension of size one (or \<open>n\<close>) expands to \<open>n\<close>.\<close>

definition expand3 :: "tensor \<Rightarrow> nat \<Rightarrow> error + tensor" where
  "expand3 t n =
     (case shape t of
        [a, b, c] \<Rightarrow>
          if a = 1 \<or> a = n
          then Inr (mk [n, b, c] (\<lambda>idx. elem t [if a = 1 then 0 else idx ! 0, idx ! 1, idx ! 2]))
          else Inl RuntimeError
      | _ \<Rightarrow> Inl RuntimeError)"

text \<open>
  \<open>nn.Conv2d\<close> without padding, with a square stride: the weight has the shape
  \<open>[out, in, kh, kw]\<close>, the bias \<open>[out]\<close>. The input is a batch \<open>[B, C, H, W]\<close> or one image
  \<open>[C, H, W]\<close>. The channels must agree and the kernel must fit into the image.
\<close>

record conv2d =
  conv_weight :: tensor
  conv_bias :: tensor
  conv_stride :: nat

definition conv_out :: "nat \<Rightarrow> nat \<Rightarrow> nat \<Rightarrow> nat" where
  "conv_out n k s = (n - k) div s + 1"

definition conv_elem :: "conv2d \<Rightarrow> tensor \<Rightarrow> nat list \<Rightarrow> nat list \<Rightarrow> real" where
  "conv_elem c x pre idx =
     (case shape (conv_weight c) of
        [out, inp, kh, kw] \<Rightarrow>
          elem (conv_bias c) [idx ! 0]
          + (\<Sum>ch < inp. \<Sum>u < kh. \<Sum>v < kw.
               elem (conv_weight c) [idx ! 0, ch, u, v]
               * elem x (pre @ [ch, idx ! 1 * conv_stride c + u, idx ! 2 * conv_stride c + v]))
      | _ \<Rightarrow> 0)"

definition conv2d_forward :: "conv2d \<Rightarrow> tensor \<Rightarrow> error + tensor" where
  "conv2d_forward c x =
     (case shape (conv_weight c) of
        [out, inp, kh, kw] \<Rightarrow>
          (case shape x of
             [B, C, H, W] \<Rightarrow>
               if C \<noteq> inp \<or> conv_stride c = 0 \<or> H < kh \<or> W < kw then Inl RuntimeError
               else Inr (mk [B, out, conv_out H kh (conv_stride c), conv_out W kw (conv_stride c)]
                          (\<lambda>idx. conv_elem c x [idx ! 0] (tl idx)))
           | [C, H, W] \<Rightarrow>
               if C \<noteq> inp \<or> conv_stride c = 0 \<or> H < kh \<or> W < kw then Inl RuntimeError
               else Inr (mk [out, conv_out H kh (conv_stride c), conv_out W kw (conv_stride c)]
                          (\<lambda>idx. conv_elem c x [] idx))
           | _ \<Rightarrow> Inl RuntimeError)
      | _ \<Rightarrow> Inl RuntimeError)"

text \<open>\<open>nn.Flatten(start_dim=2, end_dim=3)\<close> merges the dimensions 2 and 3.\<close>

definition flatten_2_3 :: "tensor \<Rightarrow> error + tensor" where
  "flatten_2_3 x =
     (case shape x of
        a # b # c # d # rest \<Rightarrow>
          Inr (mk (a # b # (c * d) # rest)
                 (\<lambda>idx. elem x (idx ! 0 # idx ! 1 # (idx ! 2 div d) # (idx ! 2 mod d) # drop 3 idx)))
      | _ \<Rightarrow> Inl IndexError)"

text \<open>\<open>x.permute(0, 2, 1)\<close> swaps the last two dimensions of a tensor of rank three.\<close>

definition permute_0_2_1 :: "tensor \<Rightarrow> error + tensor" where
  "permute_0_2_1 x =
     (case shape x of
        [a, b, c] \<Rightarrow> Inr (mk [a, c, b] (\<lambda>idx. elem x [idx ! 0, idx ! 2, idx ! 1]))
      | _ \<Rightarrow> Inl RuntimeError)"

text \<open>\<open>torch.cat((a, b), dim=1)\<close>: all dimensions but the second must agree.\<close>

definition cat_dim1 :: "tensor \<Rightarrow> tensor \<Rightarrow> error + tensor" where
  "cat_dim1 a b =
     (case shape a of
        a0 # a1 # ar \<Rightarrow>
          (case shape b of
             b0 # b1 # br \<Rightarrow>
               if a0 = b0 \<and> ar = br
               then Inr (mk (a0 # (a1 + b1) # ar)
                           (\<lambda>idx. if idx ! 1 < a1 then elem a idx
                                  else elem b (idx[1 := idx ! 1 - a1])))
               else Inl RuntimeError
           | _ \<Rightarrow> Inl RuntimeError)
      | _ \<Rightarrow> Inl IndexError)"

text \<open>
  Addition with broadcasting: the shapes are aligned at their last dimension; two
  dimensions are compatible when they are equal or one of them is one.
\<close>

fun broadcast_rev :: "nat list \<Rightarrow> nat list \<Rightarrow> nat list option" where
  "broadcast_rev [] ys = Some ys"
| "broadcast_rev (x # xs) [] = Some (x # xs)"
| "broadcast_rev (x # xs) (y # ys) =
     (if x = y \<or> y = 1 then map_option ((#) x) (broadcast_rev xs ys)
      else if x = 1 then map_option ((#) y) (broadcast_rev xs ys)
      else None)"

definition broadcast_shapes :: "nat list \<Rightarrow> nat list \<Rightarrow> nat list option" where
  "broadcast_shapes a b = map_option rev (broadcast_rev (rev a) (rev b))"

definition bidx :: "nat list \<Rightarrow> nat list \<Rightarrow> nat list" where
  "bidx sh idx = map2 (\<lambda>s i. if s = 1 then 0 else i) sh (drop (length idx - length sh) idx)"

definition add :: "tensor \<Rightarrow> tensor \<Rightarrow> error + tensor" where
  "add a b =
     (case broadcast_shapes (shape a) (shape b) of
        None \<Rightarrow> Inl RuntimeError
      | Some sh \<Rightarrow>
          Inr (mk sh (\<lambda>idx. elem a (bidx (shape a) idx) + elem b (bidx (shape b) idx))))"

text \<open>\<open>x[:, 0]\<close> selects position 0 of the second dimension.\<close>

definition select_1_0 :: "tensor \<Rightarrow> error + tensor" where
  "select_1_0 x =
     (case shape x of
        a # b # rest \<Rightarrow>
          if b = 0 then Inl IndexError
          else Inr (mk (a # rest) (\<lambda>idx. elem x (hd idx # 0 # tl idx)))
      | _ \<Rightarrow> Inl IndexError)"

text \<open>
  \<open>nn.LayerNorm\<close> over the last dimension: mean and (biased) variance of the features of
  one position, then scale and shift.
\<close>

record layer_norm =
  normalized_shape :: nat
  ln_eps :: real
  ln_weight :: tensor
  ln_bias :: tensor

definition mean_last :: "(nat list \<Rightarrow> real) \<Rightarrow> nat \<Rightarrow> nat list \<Rightarrow> real" where
  "mean_last X n pre = (\<Sum>c < n. X (pre @ [c])) / real n"

definition var_last :: "(nat list \<Rightarrow> real) \<Rightarrow> nat \<Rightarrow> nat list \<Rightarrow> real" where
  "var_last X n pre = (\<Sum>c < n. (X (pre @ [c]) - mean_last X n pre)\<^sup>2) / real n"

definition layer_norm_elem :: "layer_norm \<Rightarrow> (nat list \<Rightarrow> real) \<Rightarrow> nat list \<Rightarrow> real" where
  "layer_norm_elem nrm X idx =
     (let n = normalized_shape nrm; pre = butlast idx in
      (X idx - mean_last X n pre) / sqrt (var_last X n pre + ln_eps nrm)
        * elem (ln_weight nrm) [last idx] + elem (ln_bias nrm) [last idx])"

definition layer_norm_forward :: "layer_norm \<Rightarrow> tensor \<Rightarrow> error + tensor" where
  "layer_norm_forward nrm x =
     (if shape x \<noteq> [] \<and> last (shape x) = normalized_shape nrm
         \<and> shape (ln_weight nrm) = [normalized_shape nrm]
         \<and> shape (ln_bias nrm) = [normalized_shape nrm]
      then Inr (mk (shape x) (layer_norm_elem nrm (elem x)))
      else Inl RuntimeError)"

text \<open>\<open>nn.Linear\<close>: the weight has the shape \<open>[out, in]\<close>, the bias \<open>[out]\<close>.\<close>

record linear =
  lin_weight :: tensor
  lin_bias :: tensor

definition linear_elem :: "linear \<Rightarrow> nat \<Rightarrow> (nat list \<Rightarrow> real) \<Rightarrow> nat list \<Rightarrow> real" where
  "linear_elem l inp X idx =
     (\<Sum>i < inp. X (butlast idx @ [i]) * elem (lin_weight l) [last idx, i])
       + elem (lin_bias l) [last idx]"

definition linear_forward :: "linear \<Rightarrow> tensor \<Rightarrow> error + tensor" where
  "linear_forward l x =
     (case shape (lin_weight l) of
        [out, inp] \<Rightarrow>
          if shape x \<noteq> [] \<and> last (shape x) = inp \<and> shape (lin_bias l) = [out]
          then Inr (mk (butlast (shape x) @ [out]) (linear_elem l inp (elem x)))
          else Inl RuntimeError
      | _ \<Rightarrow> Inl RuntimeError)"

text \<open>An activation function applies to every element.\<close>

definition pointwise :: "(real \<Rightarrow> real) \<Rightarrow> tensor \<Rightarrow> tensor" where
  "pointwise f x = mk (shape x) (\<lambda>idx. f (elem x idx))"

text \<open>
  GELU is \<open>x * Phi(x)\<close> with the distribution function of the standard normal distribution,
  \<open>Phi(x) = (1 + erf (x / sqrt 2)) / 2\<close>; the error function is given by its power series.
\<close>

definition erf :: "real \<Rightarrow> real" where
  "erf x = 2 / sqrt pi * (\<Sum>n. (- 1) ^ n * x ^ (2 * n + 1) / (fact n * real (2 * n + 1)))"

definition gelu :: "real \<Rightarrow> real" where
  "gelu x = x * (1 + erf (x / sqrt 2)) / 2"

section \<open>Random numbers and dropout\<close>

text \<open>
  The state of the random number generator is a stream of dropout masks (\<open>True\<close> keeps an
  element). A computation that may draw from it takes the state and returns the new one; an
  exception ends it.
\<close>

type_synonym rng = "nat \<Rightarrow> nat list \<Rightarrow> bool"

type_synonym 'a rand = "rng \<Rightarrow> error + ('a \<times> rng)"

definition lift :: "error + 'a \<Rightarrow> 'a rand" where
  "lift v g = (case v of Inl e \<Rightarrow> Inl e | Inr a \<Rightarrow> Inr (a, g))"

definition rbind :: "'a rand \<Rightarrow> ('a \<Rightarrow> 'b rand) \<Rightarrow> 'b rand" where
  "rbind m k g = (case m g of Inl e \<Rightarrow> Inl e | Inr (a, g') \<Rightarrow> k a g')"

text \<open>
  \<open>nn.Dropout(p)\<close>: the identity unless the module is in training mode and \<open>p\<close> is not zero;
  then every element is dropped or scaled by \<open>1 / (1 - p)\<close>, by a fresh mask (all elements
  are dropped for \<open>p = 1\<close>).
\<close>

definition dropout :: "real \<Rightarrow> bool \<Rightarrow> tensor \<Rightarrow> tensor rand" where
  "dropout p training x g =
     (if \<not> training \<or> p = 0 then Inr (x, g)
      else if p = 1 then Inr (mk (shape x) (\<lambda>idx. 0), g)
      else Inr (mk (shape x) (\<lambda>idx. if g 0 idx then elem x idx / (1 - p) else 0),
                \<lambda>n. g (Suc n)))"

section \<open>The library modules of the encoder\<close>

text \<open>
  \<open>nn.MultiheadAttention\<close> with \<open>batch_first=True\<close>, called with the same tensor as query,
  key and value and with \<open>need_weights=False\<close>. The input is \<open>[B, S, E]\<close> (or \<open>[S, E]\<close>
  without a batch); \<open>pre\<close> is the index of the batch element (or empty). The input projection
  holds the weights of query, key and value one after the other (\<open>r = 0, 1, 2\<close>).
\<close>

record multihead_attention =
  mha_embed_dim :: nat
  mha_num_heads :: nat
  mha_head_dim :: nat
  mha_dropout :: real
  in_proj_weight :: tensor
  in_proj_bias :: tensor
  out_proj :: linear

definition in_proj ::
  "multihead_attention \<Rightarrow> nat \<Rightarrow> (nat list \<Rightarrow> real) \<Rightarrow> nat list \<Rightarrow> nat \<Rightarrow> nat \<Rightarrow> real" where
  "in_proj a r X pre s c =
     (\<Sum>d < mha_embed_dim a. X (pre @ [s, d]) * elem (in_proj_weight a) [r * mha_embed_dim a + c, d])
       + elem (in_proj_bias a) [r * mha_embed_dim a + c]"

definition attn_score ::
  "multihead_attention \<Rightarrow> (nat list \<Rightarrow> real) \<Rightarrow> nat list \<Rightarrow> nat \<Rightarrow> nat \<Rightarrow> nat \<Rightarrow> real" where
  "attn_score a X pre h i j =
     (\<Sum>c < mha_head_dim a.
        in_proj a 0 X pre i (h * mha_head_dim a + c) * in_proj a 1 X pre j (h * mha_head_dim a + c))
       / sqrt (real (mha_head_dim a))"

text \<open>The soft-max over the keys \<open>j\<close> of the scores of query \<open>i\<close> in head \<open>h\<close>.\<close>

definition attn_weight ::
  "multihead_attention \<Rightarrow> nat \<Rightarrow> (nat list \<Rightarrow> real) \<Rightarrow> nat list \<Rightarrow> nat \<Rightarrow> nat \<Rightarrow> nat \<Rightarrow> real" where
  "attn_weight a S X pre h i j =
     exp (attn_score a X pre h i j) / (\<Sum>j' < S. exp (attn_score a X pre h i j'))"

text \<open>
  The weighted sum of the values; feature \<open>c\<close> of the concatenated heads belongs to the head
  \<open>c div head_dim\<close>. \<open>Wt\<close> holds the attention weights at the indices \<open>pre @ [h, i, j]\<close>.
\<close>

definition attn_values ::
  "multihead_attention \<Rightarrow> nat \<Rightarrow> (nat list \<Rightarrow> real) \<Rightarrow> (nat list \<Rightarrow> real) \<Rightarrow> nat list \<Rightarrow> nat \<Rightarrow> nat \<Rightarrow> real"
where
  "attn_values a S X Wt pre i c =
     (\<Sum>j < S. Wt (pre @ [c div mha_head_dim a, i, j]) * in_proj a 2 X pre j c)"

definition mha_core ::
  "multihead_attention \<Rightarrow> bool \<Rightarrow> nat list \<Rightarrow> nat \<Rightarrow> tensor \<Rightarrow> tensor rand" where
  "mha_core a training pre_sh S x =
     (let n = length pre_sh;
          w = mk (pre_sh @ [mha_num_heads a, S, S])
                 (\<lambda>idx. attn_weight a S (elem x) (take n idx) (idx ! n) (idx ! (n + 1)) (idx ! (n + 2)))
      in rbind (dropout (mha_dropout a) training w)
           (\<lambda>w'. lift (linear_forward (out_proj a)
                    (mk (shape x)
                       (\<lambda>idx. attn_values a S (elem x) (elem w') (take n idx) (idx ! n) (idx ! (n + 1)))))))"

definition mha_forward :: "multihead_attention \<Rightarrow> bool \<Rightarrow> tensor \<Rightarrow> tensor rand" where
  "mha_forward a training x =
     (if shape (in_proj_weight a) \<noteq> [3 * mha_embed_dim a, mha_embed_dim a]
         \<or> shape (in_proj_bias a) \<noteq> [3 * mha_embed_dim a]
      then lift (Inl RuntimeError)
      else if mha_head_dim a * mha_num_heads a \<noteq> mha_embed_dim a then lift (Inl AssertionError)
      else case shape x of
             [B, S, E] \<Rightarrow>
               if E = mha_embed_dim a then mha_core a training [B] S x else lift (Inl AssertionError)
           | [S, E] \<Rightarrow>
               if E = mha_embed_dim a then mha_core a training [] S x else lift (Inl AssertionError)
           | _ \<Rightarrow> lift (Inl AssertionError))"

text \<open>
  \<open>nn.TransformerEncoderLayer\<close> with \<open>norm_first=True\<close>:
  \<open>x = x + _sa_block(norm1(x))\<close>, then \<open>x = x + _ff_block(norm2(x))\<close>.
\<close>

record encoder_layer =
  self_attn :: multihead_attention
  linear1 :: linear
  enc_dropout :: real
  linear2 :: linear
  norm1 :: layer_norm
  norm2 :: layer_norm
  dropout1 :: real
  dropout2 :: real
  activation :: "real \<Rightarrow> real"

definition sa_block :: "encoder_layer \<Rightarrow> bool \<Rightarrow> tensor \<Rightarrow> tensor rand" where
  "sa_block l training x =
     rbind (mha_forward (self_attn l) training x) (dropout (dropout1 l) training)"

definition ff_block :: "encoder_layer \<Rightarrow> bool \<Rightarrow> tensor \<Rightarrow> tensor rand" where
  "ff_block l training x =
     rbind (lift (linear_forward (linear1 l) x))
       (\<lambda>h. rbind (dropout (enc_dropout l) training (pointwise (activation l) h))
          (\<lambda>h'. rbind (lift (linear_forward (linear2 l) h')) (dropout (dropout2 l) training)))"

definition encoder_layer_forward :: "encoder_layer \<Rightarrow> bool \<Rightarrow> tensor \<Rightarrow> tensor rand" where
  "encoder_layer_forward l training x =
     rbind (lift (layer_norm_forward (norm1 l) x))
       (\<lambda>n1. rbind (sa_block l training n1)
          (\<lambda>sa. rbind (lift (add x sa))
             (\<lambda>x1. rbind (lift (layer_norm_forward (norm2 l) x1))
                (\<lambda>n2. rbind (ff_block l training n2)
                   (\<lambda>ff. lift (add x1 ff))))))"

text \<open>\<open>nn.TransformerEncoder\<close> (without a final norm): the layers one after the other.\<close>

fun encoder_forward :: "encoder_layer list \<Rightarrow> bool \<Rightarrow> tensor \<Rightarrow> tensor rand" where
  "encoder_forward [] training x = lift (Inr x)"
| "encoder_forward (l # ls) training x =
     rbind (encoder_layer_forward l training x) (encoder_forward ls training)"

section \<open>The modules of the script\<close>

text \<open>The constants at the head of the script, as one configuration.\<close>

record config =
  image_size :: nat
  patch_size :: nat
  num_channels :: nat
  embed_dim :: nat
  num_heads :: nat
  num_layers :: nat
  mlp_size :: nat
  dropout_size :: real
  num_classes :: nat

definition reference_config :: config where
  "reference_config =
     \<lparr>image_size = 224, patch_size = 16, num_channels = 3, embed_dim = 768, num_heads = 12,
      num_layers = 12, mlp_size = 3072, dropout_size = 1 / 10, num_classes = 2\<rparr>"

text \<open>\<open>num_patches = (image_size // patch_size) ** 2\<close>, computed when the script is loaded.\<close>

definition num_patches :: "config \<Rightarrow> error + nat" where
  "num_patches cfg =
     (if patch_size cfg = 0 then Inl ZeroDivisionError
      else Inr ((image_size cfg div patch_size cfg)\<^sup>2))"

subsection \<open>Forward passes\<close>

text \<open>\<open>PatchEmbedding.forward\<close>: the convolution, \<open>Flatten\<close>, then \<open>permute(0, 2, 1)\<close>.\<close>

definition PatchEmbedding_forward :: "conv2d \<Rightarrow> tensor \<Rightarrow> error + tensor" where
  "PatchEmbedding_forward pe input =
     ebind (ebind (conv2d_forward pe input) flatten_2_3) permute_0_2_1"

text \<open>\<open>TransformerEncoder\<close> keeps the layer it was built from and the stack of its copies.\<close>

record transformer_encoder =
  transformer_encoder_layer :: encoder_layer
  full_transformer_encoder :: "encoder_layer list"

definition TransformerEncoder_forward :: "transformer_encoder \<Rightarrow> bool \<Rightarrow> tensor \<Rightarrow> tensor rand" where
  "TransformerEncoder_forward te training input =
     encoder_forward (full_transformer_encoder te) training input"

text \<open>\<open>MLPHead\<close>: a layer normalisation and a linear layer.\<close>

record mlp_head =
  head_norm :: layer_norm
  head_linear :: linear

definition MLPHead_forward :: "mlp_head \<Rightarrow> tensor \<Rightarrow> error + tensor" where
  "MLPHead_forward hd_m input =
     ebind (layer_norm_forward (head_norm hd_m) input) (linear_forward (head_linear hd_m))"

text \<open>
  \<open>MultiheadSelfAttention\<close>: a layer normalisation, then the attention of the normalised
  input with itself.
\<close>

record multihead_self_attention =
  msa_norm :: layer_norm
  msa :: multihead_attention
  msa_training :: bool

definition MultiheadSelfAttention_forward :: "multihead_self_attention \<Rightarrow> tensor \<Rightarrow> tensor rand" where
  "MultiheadSelfAttention_forward m input =
     rbind (lift (layer_norm_forward (msa_norm m) input))
       (\<lambda>input'. mha_forward (msa m) (msa_training m) input')"

text \<open>\<open>ViT\<close>. The flag \<open>training\<close> is the mode set by \<open>train()\<close> and \<open>eval()\<close>.\<close>

record vit =
  patch_embedding :: conv2d
  prepend_embed_token :: tensor
  position_embed_token :: tensor
  embedding_dropout :: real
  transformer_encoder :: transformer_encoder
  mlp_head :: mlp_head
  training :: bool

definition ViT_forward :: "vit \<Rightarrow> tensor \<Rightarrow> tensor rand" where
  "ViT_forward m input =
     rbind (lift (size0 input))
       (\<lambda>current_batch_size.
     rbind (lift (expand3 (prepend_embed_token m) current_batch_size))
       (\<lambda>prepend_embed_token_expanded.
     rbind (lift (PatchEmbedding_forward (patch_embedding m) input))
       (\<lambda>input1.
     rbind (lift (cat_dim1 prepend_embed_token_expanded input1))
       (\<lambda>input2.
     rbind (lift (add input2 (position_embed_token m)))
       (\<lambda>input3.
     rbind (dropout (embedding_dropout m) (training m) input3)
       (\<lambda>input4.
     rbind (TransformerEncoder_forward (transformer_encoder m) (training m) input4)
       (\<lambda>input5.
     rbind (lift (select_1_0 input5))
       (\<lambda>input6. lift (MLPHead_forward (mlp_head m) input6)))))))))"

definition ViT_train :: "vit \<Rightarrow> vit" where
  "ViT_train m = m\<lparr>training := True\<rparr>"

definition ViT_eval :: "vit \<Rightarrow> vit" where
  "ViT_eval m = m\<lparr>training := False\<rparr>"

subsection \<open>Constructors\<close>

text \<open>
  The constructors draw the initial values of the weights from a random source; \<open>rnd k\<close>
  stands for the values drawn for the \<open>k\<close>-th tensor. Only the shapes of the tensors and the
  checks of the constructors matter below.
\<close>

definition zeros :: "nat list \<Rightarrow> tensor" where
  "zeros sh = mk sh (\<lambda>idx. 0)"

definition ones :: "nat list \<Rightarrow> tensor" where
  "ones sh = mk sh (\<lambda>idx. 1)"

definition Conv2d_init :: "nat \<Rightarrow> nat \<Rightarrow> nat \<Rightarrow> nat \<Rightarrow> (nat \<Rightarrow> nat list \<Rightarrow> real) \<Rightarrow> conv2d" where
  "Conv2d_init in_channels out_channels kernel_size stride rnd =
     \<lparr>conv_weight = mk [out_channels, in_channels, kernel_size, kernel_size] (rnd 0),
      conv_bias = mk [out_channels] (rnd 1),
      conv_stride = stride\<rparr>"

text \<open>\<open>nn.Dropout(p)\<close> raises \<open>ValueError\<close> unless \<open>0 <= p <= 1\<close>.\<close>

definition Dropout_init :: "real \<Rightarrow> error + real" where
  "Dropout_init p = (if p < 0 \<or> 1 < p then Inl ValueError else Inr p)"

definition LayerNorm_init :: "nat \<Rightarrow> real \<Rightarrow> layer_norm" where
  "LayerNorm_init n eps =
     \<lparr>normalized_shape = n, ln_eps = eps, ln_weight = ones [n], ln_bias = zeros [n]\<rparr>"

definition Linear_init :: "nat \<Rightarrow> nat \<Rightarrow> (nat \<Rightarrow> nat list \<Rightarrow> real) \<Rightarrow> nat \<Rightarrow> linear" where
  "Linear_init in_features out_features rnd k =
     \<lparr>lin_weight = mk [out_features, in_features] (rnd k),
      lin_bias = mk [out_features] (rnd (k + 1))\<rparr>"

text \<open>
  \<open>nn.MultiheadAttention\<close> raises \<open>ValueError\<close> unless both numbers are positive, and
  asserts that \<open>head_dim * num_heads == embed_dim\<close> for \<open>head_dim = embed_dim // num_heads\<close>.
\<close>

definition MultiheadAttention_init ::
  "nat \<Rightarrow> nat \<Rightarrow> real \<Rightarrow> (nat \<Rightarrow> nat list \<Rightarrow> real) \<Rightarrow> error + multihead_attention" where
  "MultiheadAttention_init e h p rnd =
     (if e = 0 \<or> h = 0 then Inl ValueError
      else if (e div h) * h \<noteq> e then Inl AssertionError
      else Inr \<lparr>mha_embed_dim = e, mha_num_heads = h, mha_head_dim = e div h, mha_dropout = p,
                in_proj_weight = mk [3 * e, e] (rnd 4), in_proj_bias = zeros [3 * e],
                out_proj = \<lparr>lin_weight = mk [e, e] (rnd 5), lin_bias = zeros [e]\<rparr>\<rparr>)"

definition TransformerEncoderLayer_init ::
  "nat \<Rightarrow> nat \<Rightarrow> nat \<Rightarrow> real \<Rightarrow> (nat \<Rightarrow> nat list \<Rightarrow> real) \<Rightarrow> error + encoder_layer" where
  "TransformerEncoderLayer_init d_model nhead dim_feedforward p rnd =
     ebind (MultiheadAttention_init d_model nhead p rnd)
       (\<lambda>attn. ebind (Dropout_init p)
          (\<lambda>dp. Inr \<lparr>self_attn = attn,
                      linear1 = Linear_init d_model dim_feedforward rnd 6,
                      enc_dropout = dp,
                      linear2 = Linear_init dim_feedforward d_model rnd 8,
                      norm1 = LayerNorm_init d_model (1 / 100000),
                      norm2 = LayerNorm_init d_model (1 / 100000),
                      dropout1 = dp, dropout2 = dp,
                      activation = gelu\<rparr>))"

text \<open>\<open>nn.TransformerEncoder\<close> makes \<open>num_layers\<close> deep copies of the layer it is given.\<close>

definition TransformerEncoder_init :: "config \<Rightarrow> (nat \<Rightarrow> nat list \<Rightarrow> real) \<Rightarrow> error + transformer_encoder" where
  "TransformerEncoder_init cfg rnd =
     ebind (TransformerEncoderLayer_init (embed_dim cfg) (num_heads cfg) (mlp_size cfg)
              (dropout_size cfg) rnd)
       (\<lambda>layer. Inr \<lparr>transformer_encoder_layer = layer,
                      full_transformer_encoder = replicate (num_layers cfg) layer\<rparr>)"

definition MLPHead_init :: "config \<Rightarrow> (nat \<Rightarrow> nat list \<Rightarrow> real) \<Rightarrow> mlp_head" where
  "MLPHead_init cfg rnd =
     \<lparr>head_norm = LayerNorm_init (embed_dim cfg) (1 / 100000),
      head_linear = Linear_init (embed_dim cfg) (num_classes cfg) rnd 10\<rparr>"

definition MultiheadSelfAttention_init ::
  "config \<Rightarrow> (nat \<Rightarrow> nat list \<Rightarrow> real) \<Rightarrow> error + multihead_self_attention" where
  "MultiheadSelfAttention_init cfg rnd =
     ebind (MultiheadAttention_init (embed_dim cfg) (num_heads cfg) 0 rnd)
       (\<lambda>attn. Inr \<lparr>msa_norm = LayerNorm_init (embed_dim cfg) (1 / 100000), msa = attn,
                     msa_training = True\<rparr>)"

text \<open>
  \<open>ViT.__init__\<close>, after the constants of the script (\<open>num_patches\<close> among them) have been
  computed. A new module is in training mode.
\<close>

definition ViT_init :: "config \<Rightarrow> (nat \<Rightarrow> nat list \<Rightarrow> real) \<Rightarrow> error + vit" where
  "ViT_init cfg rnd =
     ebind (num_patches cfg)
       (\<lambda>np. ebind (Dropout_init (dropout_size cfg))
          (\<lambda>dp. ebind (TransformerEncoder_init cfg rnd)
             (\<lambda>te. Inr \<lparr>patch_embedding =
                           Conv2d_init (num_channels cfg) (embed_dim cfg) (patch_size cfg)
                             (patch_size cfg) rnd,
                         prepend_embed_token = mk [1, 1, embed_dim cfg] (rnd 2),
                         position_embed_token = mk [1, np + 1, embed_dim cfg] (rnd 3),
                         embedding_dropout = dp,
                         transformer_encoder = te,
                         mlp_head = MLPHead_init cfg rnd,
                         training = True\<rparr>)))"

subsection \<open>Models with parameters of the shapes the constructors give them\<close>

definition wf_conv2d :: "nat \<Rightarrow> nat \<Rightarrow> nat \<Rightarrow> conv2d \<Rightarrow> bool" where
  "wf_conv2d inp out p c =
     (shape (conv_weight c) = [out, inp, p, p] \<and> shape (conv_bias c) = [out] \<and> conv_stride c = p)"

definition wf_linear :: "nat \<Rightarrow> nat \<Rightarrow> linear \<Rightarrow> bool" where
  "wf_linear inp out l = (shape (lin_weight l) = [out, inp] \<and> shape (lin_bias l) = [out])"

definition wf_layer_norm :: "nat \<Rightarrow> layer_norm \<Rightarrow> bool" where
  "wf_layer_norm n nrm =
     (normalized_shape nrm = n \<and> shape (ln_weight nrm) = [n] \<and> shape (ln_bias nrm) = [n])"

definition wf_mha :: "nat \<Rightarrow> multihead_attention \<Rightarrow> bool" where
  "wf_mha e a =
     (mha_embed_dim a = e \<and> mha_head_dim a * mha_num_heads a = e
      \<and> shape (in_proj_weight a) = [3 * e, e] \<and> shape (in_proj_bias a) = [3 * e]
      \<and> wf_linear e e (out_proj a))"

definition wf_encoder_layer :: "nat \<Rightarrow> nat \<Rightarrow> encoder_layer \<Rightarrow> bool" where
  "wf_encoder_layer e f l =
     (wf_mha e (self_attn l) \<and> wf_linear e f (linear1 l) \<and> wf_linear f e (linear2 l)
      \<and> wf_layer_norm e (norm1 l) \<and> wf_layer_norm e (norm2 l))"

definition wf_msa :: "nat \<Rightarrow> multihead_self_attention \<Rightarrow> bool" where
  "wf_msa e m = (wf_layer_norm e (msa_norm m) \<and> wf_mha e (msa m))"

definition wf_vit :: "config \<Rightarrow> vit \<Rightarrow> bool" where
  "wf_vit cfg m =
     (case num_patches cfg of
        Inl e \<Rightarrow> False
      | Inr np \<Rightarrow>
          wf_conv2d (num_channels cfg) (embed_dim cfg) (patch_size cfg) (patch_embedding m)
          \<and> shape (prepend_embed_token m) = [1, 1, embed_dim cfg]
          \<and> shape (position_embed_token m) = [1, np + 1, embed_dim cfg]
          \<and> length (full_transformer_encoder (transformer_encoder m)) = num_layers cfg
          \<and> list_all (wf_encoder_layer (embed_dim cfg) (mlp_size cfg))
               (full_transformer_encoder (transformer_encoder m))
          \<and> wf_layer_norm (embed_dim cfg) (head_norm (mlp_head m))
          \<and> wf_linear (embed_dim cfg) (num_classes cfg) (head_linear (mlp_head m)))"

subsection \<open>Concrete models and inputs\<close>

text \<open>
  The model of the reference configuration with all drawn weights zero, the same for images
  of 230 by 230 pixels and for five heads, and a generator that never drops an element.
\<close>

definition zero_init :: "nat \<Rightarrow> nat list \<Rightarrow> real" where
  "zero_init k idx = 0"

definition reference_model :: vit where
  "reference_model = projr (ViT_init reference_config zero_init)"




definition all_keep :: rng where
  "all_keep n idx = True"

definition result_shape :: "error + (tensor \<times> rng) \<Rightarrow> error + nat list" where
  "result_shape r = (case r of Inl e \<Rightarrow> Inl e | Inr (y, g) \<Rightarrow> Inr (shape y))"

text \<open>
  A small model for the effect of dropout: one pixel, one patch, two features, no encoder
  layer, one class and the dropout rate one half. Its class token is \<open>(1, 0)\<close>, and its head
  returns the first normalised feature. The generator \<open>keep_then_drop\<close> keeps every element in
  its first mask and drops every element afterwards.
\<close>

definition tiny_config :: config where
  "tiny_config =
     \<lparr>image_size = 1, patch_size = 1, num_channels = 1, embed_dim = 2, num_heads = 1,
      num_layers = 0, mlp_size = 1, dropout_size = 1 / 2, num_classes = 1\<rparr>"

definition tiny_init :: "nat \<Rightarrow> nat list \<Rightarrow> real" where
  "tiny_init k idx = (if (k = 2 \<or> k = 10) \<and> last idx = 0 then 1 else 0)"

definition tiny_model :: vit where
  "tiny_model = projr (ViT_init tiny_config tiny_init)"

definition keep_then_drop :: rng where
  "keep_then_drop n idx = (n = 0)"

definition logit_0_0 :: "error + (tensor \<times> rng) \<Rightarrow> error + real" where
  "logit_0_0 r = (case r of Inl e \<Rightarrow> Inl e | Inr (y, g) \<Rightarrow> Inr (elem y [0, 0]))"

definition next_state :: "error + (tensor \<times> rng) \<Rightarrow> rng" where
  "next_state r = (case r of Inl e \<Rightarrow> all_keep | Inr (y, g) \<Rightarrow> g)"

text \<open>
  A self-attention block with two features and one head, and a sequence of three positions
  whose features differ from position to position.
\<close>

definition tiny_msa :: multihead_self_attention where
  "tiny_msa = projr (MultiheadSelfAttention_init tiny_config tiny_init)"

definition ramp_input :: tensor where
  "ramp_input = mk [1, 3, 2] (\<lambda>idx. real (idx ! 1) + real (idx ! 2))"

subsection \<open>Computations that do not use the random number generator\<close>

text \<open>
  \<open>rng_free m\<close>: the outcome of \<open>m\<close> (a value or an exception) is the same for every state of
  the generator, and \<open>m\<close> leaves the state as it is.
\<close>

definition rng_free :: "'a rand \<Rightarrow> bool" where
  "rng_free m = (\<exists>v. \<forall>g. m g = lift v g)"

section \<open>The layers as functions on tensors\<close>

text \<open>
  The specification speaks of the layers as functions: \<open>LayerNorm(x)\<close>, \<open>Attention(x)\<close>,
  \<open>FeedForward(x)\<close> and the sum \<open>x + y\<close> of two tensors of one shape. The definitions of this
  section follow these words; they have no checks, no modes and no random numbers, and
  they are compared with the forward passes of the modules further down.
\<close>

definition LayerNorm_f :: "layer_norm \<Rightarrow> tensor \<Rightarrow> tensor" where
  "LayerNorm_f nrm x = mk (shape x) (layer_norm_elem nrm (elem x))"

definition Linear_f :: "linear \<Rightarrow> tensor \<Rightarrow> tensor" where
  "Linear_f l x =
     mk (butlast (shape x) @ [shape (lin_weight l) ! 0])
        (linear_elem l (shape (lin_weight l) ! 1) (elem x))"

text \<open>
  Attention over a sequence \<open>[B, S, E]\<close>: for every head the soft-max of the scaled products of
  queries and keys weighs the values; the heads are concatenated and projected.
\<close>

definition Attention_f :: "multihead_attention \<Rightarrow> tensor \<Rightarrow> tensor" where
  "Attention_f a x =
     (let B = shape x ! 0; S = shape x ! 1;
          w = mk [B, mha_num_heads a, S, S]
                 (\<lambda>idx. attn_weight a S (elem x) [idx ! 0] (idx ! 1) (idx ! 2) (idx ! 3))
      in Linear_f (out_proj a)
           (mk (shape x) (\<lambda>idx. attn_values a S (elem x) (elem w) [idx ! 0] (idx ! 1) (idx ! 2))))"


definition plus_f :: "tensor \<Rightarrow> tensor \<Rightarrow> tensor" where
  "plus_f x y = mk (shape x) (\<lambda>idx. elem x idx + elem y idx)"




section \<open>Permutations of the sequence axis\<close>

text \<open>
  \<open>x[:, p]\<close> for a list \<open>p\<close> of positions: position \<open>i\<close> of the result is position \<open>p ! i\<close> of
  \<open>x\<close>. A position outside of the sequence is an error. \<open>p\<close> is a permutation of the \<open>n\<close>
  positions when it lists each of them once.
\<close>

definition index_select_1 :: "tensor \<Rightarrow> nat list \<Rightarrow> error + tensor" where
  "index_select_1 x p =
     (case shape x of
        a # b # rest \<Rightarrow>
          if list_all (\<lambda>i. i < b) p
          then Inr (mk (a # length p # rest) (\<lambda>idx. elem x (idx[1 := p ! (idx ! 1)])))
          else Inl IndexError
      | _ \<Rightarrow> Inl IndexError)"

definition is_permutation :: "nat list \<Rightarrow> nat \<Rightarrow> bool" where
  "is_permutation p n = (length p = n \<and> distinct p \<and> list_all (\<lambda>i. i < n) p)"

text \<open>
  Two families of elements of shape \<open>[B, S, E]\<close>, the first being the second with its
  positions rearranged by \<open>p\<close>.
\<close>

definition permuted ::
  "nat list \<Rightarrow> nat \<Rightarrow> nat \<Rightarrow> nat \<Rightarrow> (nat list \<Rightarrow> real) \<Rightarrow> (nat list \<Rightarrow> real) \<Rightarrow> bool" where
  "permuted p B S E F G = (\<forall>b < B. \<forall>i < S. \<forall>c < E. F [b, i, c] = G [b, p ! i, c])"

section \<open>The training loop of \<open>main\<close>\<close>

text \<open>
  The value of \<open>loss.item()\<close> is a floating point number: a finite value, an infinity or
  NaN. Finite values are real numbers here (rounding and overflow are not modelled); the
  addition follows IEEE 754 on the special values.
\<close>

datatype fl = Finite real | PosInf | NegInf | NaN


fun is_finite :: "fl \<Rightarrow> bool" where
  "is_finite (Finite a) = True"
| "is_finite x = False"









section \<open>The testing loop of \<open>main\<close>\<close>

text \<open>
  A batch of the test loader is a pair of an image batch and a one-dimensional tensor of
  integer labels (a list). The model \<open>visual_transformer\<close> is a parameter of the loop; its
  output is a tensor of rank two, kept here as the list of its rows of logits. The numbers
  are real numbers: rounding of floating point values is not modelled.
\<close>

text \<open>
  \<open>torch.max(row)\<close> along the class axis: the index of the first maximal value. The
  loop \<open>first_max\<close> scans the row from the left and keeps the best index so far, replacing it
  only on a strictly larger value. An empty reduction axis is an error.
\<close>

fun first_max :: "real list \<Rightarrow> nat \<Rightarrow> nat \<Rightarrow> real \<Rightarrow> nat" where
  "first_max [] i best v = best"
| "first_max (x # xs) i best v =
     (if v < x then first_max xs (Suc i) i x else first_max xs (Suc i) best v)"

definition argmax_row :: "real list \<Rightarrow> error + nat" where
  "argmax_row row = (case row of [] \<Rightarrow> Inl IndexError | x # xs \<Rightarrow> Inr (first_max xs 1 0 x))"

fun torch_max_dim1 :: "real list list \<Rightarrow> error + nat list" where
  "torch_max_dim1 [] = Inr []"
| "torch_max_dim1 (row # rows) =
     (case argmax_row row of
        Inl e \<Rightarrow> Inl e
      | Inr i \<Rightarrow> (case torch_max_dim1 rows of Inl e \<Rightarrow> Inl e | Inr is \<Rightarrow> Inr (i # is)))"

text \<open>
  \<open>(predicted == labels).sum().item()\<close>: the comparison broadcasts two one-dimensional
  tensors (equal lengths, or one of them of length one) and fails otherwise.
\<close>

definition count_matches :: "nat list \<Rightarrow> int list \<Rightarrow> nat" where
  "count_matches predicted labels =
     length (filter (\<lambda>(p, l). int p = l) (zip predicted labels))"

definition eq_sum :: "nat list \<Rightarrow> int list \<Rightarrow> error + nat" where
  "eq_sum predicted labels =
     (if length predicted = length labels then Inr (count_matches predicted labels)
      else if length labels = 1 then
        Inr (count_matches predicted (replicate (length predicted) (hd labels)))
      else if length predicted = 1 then
        Inr (count_matches (replicate (length labels) (hd predicted)) labels)
      else Inl RuntimeError)"

fun test_loop ::
  "('img \<Rightarrow> error + real list list) \<Rightarrow> ('img \<times> int list) list \<Rightarrow> nat \<Rightarrow> nat \<Rightarrow> error + (nat \<times> nat)"
where
  "test_loop vt [] correct total_n = Inr (correct, total_n)"
| "test_loop vt ((images, labels) # rest) correct total_n =
     (case vt images of
        Inl e \<Rightarrow> Inl e
      | Inr outputs \<Rightarrow>
          (case torch_max_dim1 outputs of
             Inl e \<Rightarrow> Inl e
           | Inr predicted \<Rightarrow>
               (case eq_sum predicted labels of
                  Inl e \<Rightarrow> Inl e
                | Inr n \<Rightarrow> test_loop vt rest (correct + n) (total_n + length labels))))"

text \<open>
  The printed accuracy \<open>100 * correct / total\<close>: Python's true division raises
  \<open>ZeroDivisionError\<close> on a zero divisor.
\<close>

definition test_accuracy ::
  "('img \<Rightarrow> error + real list list) \<Rightarrow> ('img \<times> int list) list \<Rightarrow> error + real" where
  "test_accuracy vt batches =
     (case test_loop vt batches 0 0 of
        Inl e \<Rightarrow> Inl e
      | Inr (correct, total_n) \<Rightarrow>
          if total_n = 0 then Inl ZeroDivisionError
          else Inr (100 * real correct / real total_n))"



text \<open>All examples of a data source in order, each with its logits and its label.\<close>

fun examples :: "('img \<Rightarrow> error + real list list) \<Rightarrow> ('img \<times> int list) list \<Rightarrow> (real list \<times> int) list" where
  "examples vt [] = []"
| "examples vt ((images, labels) # rest) =
     (case vt images of Inl e \<Rightarrow> [] | Inr outputs \<Rightarrow> zip outputs labels) @ examples vt rest"

definition well_batched :: "('img \<Rightarrow> error + real list list) \<Rightarrow> ('img \<times> int list) \<Rightarrow> bool" where
  "well_batched vt b =
     (case vt (fst b) of
        Inl e \<Rightarrow> False
      | Inr outputs \<Rightarrow> length outputs = length (snd b) \<and> list_all (\<lambda>row. row \<noteq> []) outputs)"

definition am :: "real list \<Rightarrow> nat" where
  "am row = first_max (tl row) 1 0 (hd row)"

definition hit :: "(real list \<times> int) \<Rightarrow> bool" where
  "hit ex = (case argmax_row (fst ex) of Inl e \<Rightarrow> False | Inr i \<Rightarrow> int i = snd ex)"


section \<open>Properties\<close>

subsection \<open>The testing loop: auxiliary facts\<close>






lemma argmax_row_am: "row \<noteq> [] \<Longrightarrow> argmax_row row = Inr (am row)"
  by (cases row) (simp_all add: argmax_row_def am_def)

lemma torch_max_dim1_am:
  "list_all (\<lambda>row. row \<noteq> []) outputs \<Longrightarrow> torch_max_dim1 outputs = Inr (map am outputs)"
  by (induction outputs) (simp_all add: argmax_row_am)

lemma count_matches_hits:
  "list_all (\<lambda>row. row \<noteq> []) outputs \<Longrightarrow>
   count_matches (map am outputs) labels = length (filter hit (zip outputs labels))"
proof (induction outputs arbitrary: labels)
  case Nil
  then show ?case by (simp add: count_matches_def)
next
  case (Cons row outputs)
  then show ?case
    by (cases labels) (auto simp: count_matches_def hit_def argmax_row_am)
qed

lemma test_loop_counts:
  "list_all (well_batched vt) batches \<Longrightarrow>
   test_loop vt batches c t =
     Inr (c + length (filter hit (examples vt batches)), t + length (examples vt batches))"
proof (induction batches arbitrary: c t)
  case Nil
  then show ?case by simp
next
  case (Cons b batches)
  obtain images labels where b: "b = (images, labels)" by (cases b)
  from Cons.prems b obtain outputs where o: "vt images = Inr outputs"
    "length outputs = length labels" "list_all (\<lambda>row. row \<noteq> []) outputs"
    by (auto simp: well_batched_def split: sum.splits)
  have "eq_sum (map am outputs) labels = Inr (length (filter hit (zip outputs labels)))"
    using o by (simp add: eq_sum_def count_matches_hits)
  moreover have "list_all (well_batched vt) batches" using Cons.prems by simp
  ultimately show ?case
    using o b Cons.IH by (simp add: torch_max_dim1_am)
qed

subsection \<open>The training loop: auxiliary facts\<close>





subsection \<open>Shapes of the results of the library operations\<close>

lemma shape_mk [simp]: "shape (mk sh f) = sh"
  by (simp add: mk_def)

lemma ebind_simps [simp]: "ebind (Inr a) k = k a" "ebind (Inl e) k = Inl e"
  by (simp_all add: ebind_def)

lemma lift_simps [simp]: "lift (Inr a) g = Inr (a, g)" "lift (Inl e) g = Inl e"
  by (simp_all add: lift_def)

lemma rbind_Inr: "m g = Inr (a, g') \<Longrightarrow> rbind m k g = k a g'"
  by (simp add: rbind_def)

lemma rbind_Inl: "m g = Inl e \<Longrightarrow> rbind m k g = Inl e"
  by (simp add: rbind_def)

lemma rbind_lift_Inr [simp]: "rbind (lift (Inr a)) k g = k a g"
  by (simp add: rbind_def)

lemma conv_out_dvd: "0 < p \<Longrightarrow> p dvd n \<Longrightarrow> 0 < n \<Longrightarrow> conv_out n p p = n div p"
proof -
  assume a: "0 < p" "p dvd n" "0 < n"
  then obtain k where k: "n = p * k" by (auto simp: dvd_def)
  with a have "0 < k" by (cases k) auto
  then obtain j where j: "k = Suc j" by (cases k) auto
  show ?thesis using a k j by (simp add: conv_out_def)
qed

lemma conv2d_forward_shape:
  "wf_conv2d C D P c \<Longrightarrow> shape x = [B, C, H, W] \<Longrightarrow> 0 < P \<Longrightarrow> P \<le> H \<Longrightarrow> P \<le> W \<Longrightarrow>
   \<exists>y. conv2d_forward c x = Inr y \<and> shape y = [B, D, conv_out H P P, conv_out W P P]"
  by (simp add: conv2d_forward_def wf_conv2d_def)

lemma flatten_2_3_shape:
  "shape x = [a, b, c, d] \<Longrightarrow> \<exists>y. flatten_2_3 x = Inr y \<and> shape y = [a, b, c * d]"
  by (simp add: flatten_2_3_def)

lemma permute_0_2_1_shape:
  "shape x = [a, b, c] \<Longrightarrow> \<exists>y. permute_0_2_1 x = Inr y \<and> shape y = [a, c, b]"
  by (simp add: permute_0_2_1_def)

lemma PatchEmbedding_forward_shape:
  "wf_conv2d C D P pe \<Longrightarrow> shape x = [B, C, H, W] \<Longrightarrow> 0 < P \<Longrightarrow> P dvd H \<Longrightarrow> P dvd W \<Longrightarrow>
   0 < H \<Longrightarrow> 0 < W \<Longrightarrow>
   \<exists>y. PatchEmbedding_forward pe x = Inr y \<and> shape y = [B, (H div P) * (W div P), D]"
proof -
  assume a: "wf_conv2d C D P pe" "shape x = [B, C, H, W]" "0 < P" "P dvd H" "P dvd W" "0 < H" "0 < W"
  then have le: "P \<le> H" "P \<le> W" by (auto dest: dvd_imp_le)
  from conv2d_forward_shape [OF a(1) a(2) a(3) le] obtain y1
    where y1: "conv2d_forward pe x = Inr y1" "shape y1 = [B, D, conv_out H P P, conv_out W P P]"
    by blast
  from flatten_2_3_shape [OF y1(2)] obtain y2
    where y2: "flatten_2_3 y1 = Inr y2" "shape y2 = [B, D, conv_out H P P * conv_out W P P]"
    by blast
  from permute_0_2_1_shape [OF y2(2)] obtain y3
    where y3: "permute_0_2_1 y2 = Inr y3" "shape y3 = [B, conv_out H P P * conv_out W P P, D]"
    by blast
  show ?thesis using y1 y2 y3 a by (simp add: PatchEmbedding_forward_def conv_out_dvd)
qed

lemma expand3_shape:
  "shape t = [1, b, c] \<Longrightarrow> \<exists>y. expand3 t n = Inr y \<and> shape y = [n, b, c]"
  by (simp add: expand3_def)

lemma cat_dim1_shape:
  "shape a = [B, m, D] \<Longrightarrow> shape b = [B, n, D] \<Longrightarrow>
   \<exists>y. cat_dim1 a b = Inr y \<and> shape y = [B, m + n, D]"
  by (simp add: cat_dim1_def)

lemma add_broadcast_batch_shape:
  "shape a = [B, n, D] \<Longrightarrow> shape b = [1, n, D] \<Longrightarrow> \<exists>y. add a b = Inr y \<and> shape y = [B, n, D]"
  by (simp add: add_def broadcast_shapes_def)

lemma add_same_shape:
  "shape a = sh \<Longrightarrow> shape b = sh \<Longrightarrow> \<exists>y. add a b = Inr y \<and> shape y = sh"
proof -
  have "broadcast_rev xs xs = Some xs" for xs
    by (induction xs) simp_all
  then show "shape a = sh \<Longrightarrow> shape b = sh \<Longrightarrow> \<exists>y. add a b = Inr y \<and> shape y = sh"
    by (simp add: add_def broadcast_shapes_def)
qed

lemma dropout_shape: "\<exists>y g'. dropout p t x g = Inr (y, g') \<and> shape y = shape x"
  by (simp add: dropout_def)

lemma select_1_0_shape:
  "shape x = [B, Suc n, D] \<Longrightarrow> \<exists>y. select_1_0 x = Inr y \<and> shape y = [B, D]"
  by (simp add: select_1_0_def)

lemma layer_norm_forward_shape:
  "wf_layer_norm n nrm \<Longrightarrow> shape x \<noteq> [] \<Longrightarrow> last (shape x) = n \<Longrightarrow>
   \<exists>y. layer_norm_forward nrm x = Inr y \<and> shape y = shape x"
  by (simp add: layer_norm_forward_def wf_layer_norm_def)

lemma linear_forward_shape:
  "wf_linear inp out l \<Longrightarrow> shape x \<noteq> [] \<Longrightarrow> last (shape x) = inp \<Longrightarrow>
   \<exists>y. linear_forward l x = Inr y \<and> shape y = butlast (shape x) @ [out]"
  by (simp add: linear_forward_def wf_linear_def)

lemma mha_forward_shape:
  "wf_mha E a \<Longrightarrow> shape x = [B, S, E] \<Longrightarrow>
   \<exists>y g'. mha_forward a t x g = Inr (y, g') \<and> shape y = [B, S, E]"
proof -
  assume a: "wf_mha E a" "shape x = [B, S, E]"
  define w where "w = mk ([B] @ [mha_num_heads a, S, S])
     (\<lambda>idx. attn_weight a S (elem x) (take (length [B]) idx) (idx ! length [B]) (idx ! (length [B] + 1)) (idx ! (length [B] + 2)))"
  obtain w' g' where w': "dropout (mha_dropout a) t w g = Inr (w', g')"
    using dropout_shape by blast
  define v where "v = mk (shape x) (\<lambda>idx. attn_values a S (elem x) (elem w') (take (length [B]) idx) (idx ! length [B]) (idx ! (length [B] + 1)))"
  have "wf_linear E E (out_proj a)" using a by (simp add: wf_mha_def)
  from linear_forward_shape [OF this, of v] obtain y
    where y: "linear_forward (out_proj a) v = Inr y" "shape y = [B, S, E]"
    using a by (auto simp: v_def)
  have "mha_core a t [B] S x g = Inr (y, g')"
    unfolding mha_core_def Let_def using w' y
    by (simp add: rbind_def w_def v_def)
  then show ?thesis using a y by (simp add: mha_forward_def wf_mha_def)
qed

lemma rand_shape_bind:
  assumes "\<exists>y g'. m g = Inr (y, g') \<and> shape y = sh"
    and "\<And>y g'. shape y = sh \<Longrightarrow> \<exists>z g''. k y g' = Inr (z, g'') \<and> shape z = sh'"
  shows "\<exists>z g''. rbind m k g = Inr (z, g'') \<and> shape z = sh'"
proof -
  from assms(1) obtain y g' where y: "m g = Inr (y, g')" "shape y = sh" by blast
  from assms(2) [OF y(2)] obtain z g'' where "k y g' = Inr (z, g'')" "shape z = sh'" by blast
  with y show ?thesis by (simp add: rbind_def)
qed

lemma rand_shape_lift:
  "\<exists>y. v = Inr y \<and> shape y = sh \<Longrightarrow> \<exists>y g'. lift v g = Inr (y, g') \<and> shape y = sh"
  by auto

lemma sa_block_shape:
  assumes "wf_encoder_layer E F l" "shape x = [B, S, E]"
  shows "\<exists>y g'. sa_block l t x g = Inr (y, g') \<and> shape y = [B, S, E]"
  unfolding sa_block_def
proof (rule rand_shape_bind [where sh = "[B, S, E]"])
  have "wf_mha E (self_attn l)" using assms(1) by (simp add: wf_encoder_layer_def)
  then show "\<exists>y g'. mha_forward (self_attn l) t x g = Inr (y, g') \<and> shape y = [B, S, E]"
    using assms(2) by (rule mha_forward_shape)
next
  fix y g' assume "shape y = [B, S, E]"
  then show "\<exists>z g''. dropout (dropout1 l) t y g' = Inr (z, g'') \<and> shape z = [B, S, E]"
    using dropout_shape [of "dropout1 l" t y g'] by simp
qed

lemma pointwise_shape [simp]: "shape (pointwise f x) = shape x"
  by (simp add: pointwise_def)

lemma ff_block_shape:
  assumes "wf_encoder_layer E F l" "shape x = [B, S, E]"
  shows "\<exists>y g'. ff_block l t x g = Inr (y, g') \<and> shape y = [B, S, E]"
proof -
  have l1: "wf_linear E F (linear1 l)" and l2: "wf_linear F E (linear2 l)"
    using assms(1) by (simp_all add: wf_encoder_layer_def)
  show ?thesis
    unfolding ff_block_def
  proof (rule rand_shape_bind [where sh = "[B, S, F]"])
    show "\<exists>y g'. lift (linear_forward (linear1 l) x) g = Inr (y, g') \<and> shape y = [B, S, F]"
      using linear_forward_shape [OF l1, of x] assms(2) by (intro rand_shape_lift) simp
  next
    fix h g1 assume h: "shape h = [B, S, F]"
    show "\<exists>z g''. rbind (dropout (enc_dropout l) t (pointwise (activation l) h))
            (\<lambda>h'. rbind (lift (linear_forward (linear2 l) h')) (dropout (dropout2 l) t)) g1
          = Inr (z, g'') \<and> shape z = [B, S, E]"
    proof (rule rand_shape_bind [where sh = "[B, S, F]"])
      show "\<exists>y g'. dropout (enc_dropout l) t (pointwise (activation l) h) g1 = Inr (y, g') \<and> shape y = [B, S, F]"
        using dropout_shape [of "enc_dropout l" t "pointwise (activation l) h" g1] h by simp
    next
      fix h' g2 assume h': "shape h' = [B, S, F]"
      show "\<exists>z g''. rbind (lift (linear_forward (linear2 l) h')) (dropout (dropout2 l) t) g2
          = Inr (z, g'') \<and> shape z = [B, S, E]"
      proof (rule rand_shape_bind [where sh = "[B, S, E]"])
        show "\<exists>y g'. lift (linear_forward (linear2 l) h') g2 = Inr (y, g') \<and> shape y = [B, S, E]"
          using linear_forward_shape [OF l2, of h'] h' by (intro rand_shape_lift) simp
      next
        fix y g3 assume "shape y = [B, S, E]"
        then show "\<exists>z g''. dropout (dropout2 l) t y g3 = Inr (z, g'') \<and> shape z = [B, S, E]"
          using dropout_shape [of "dropout2 l" t y g3] by simp
      qed
    qed
  qed
qed

lemma encoder_layer_forward_shape:
  assumes "wf_encoder_layer E F l" "shape x = [B, S, E]"
  shows "\<exists>y g'. encoder_layer_forward l t x g = Inr (y, g') \<and> shape y = [B, S, E]"
proof -
  have n1: "wf_layer_norm E (norm1 l)" and n2: "wf_layer_norm E (norm2 l)"
    using assms(1) by (simp_all add: wf_encoder_layer_def)
  show ?thesis
    unfolding encoder_layer_forward_def
  proof (rule rand_shape_bind [where sh = "[B, S, E]"])
    show "\<exists>y g'. lift (layer_norm_forward (norm1 l) x) g = Inr (y, g') \<and> shape y = [B, S, E]"
      using layer_norm_forward_shape [OF n1, of x] assms(2) by (intro rand_shape_lift) simp
  next
    fix y1 g1 assume y1: "shape y1 = [B, S, E]"
    show "\<exists>z g''. rbind (sa_block l t y1)
            (\<lambda>sa. rbind (lift (add x sa))
               (\<lambda>x1. rbind (lift (layer_norm_forward (norm2 l) x1))
                  (\<lambda>n2. rbind (ff_block l t n2) (\<lambda>ff. lift (add x1 ff))))) g1
          = Inr (z, g'') \<and> shape z = [B, S, E]"
    proof (rule rand_shape_bind [where sh = "[B, S, E]"])
      show "\<exists>y g'. sa_block l t y1 g1 = Inr (y, g') \<and> shape y = [B, S, E]"
        by (rule sa_block_shape [OF assms(1) y1])
    next
      fix sa g2 assume sa: "shape sa = [B, S, E]"
      show "\<exists>z g''. rbind (lift (add x sa))
               (\<lambda>x1. rbind (lift (layer_norm_forward (norm2 l) x1))
                  (\<lambda>n2. rbind (ff_block l t n2) (\<lambda>ff. lift (add x1 ff)))) g2
          = Inr (z, g'') \<and> shape z = [B, S, E]"
      proof (rule rand_shape_bind [where sh = "[B, S, E]"])
        show "\<exists>y g'. lift (add x sa) g2 = Inr (y, g') \<and> shape y = [B, S, E]"
          using add_same_shape [OF assms(2) sa] by (intro rand_shape_lift)
      next
        fix x1 g3 assume x1: "shape x1 = [B, S, E]"
        show "\<exists>z g''. rbind (lift (layer_norm_forward (norm2 l) x1))
                  (\<lambda>n2. rbind (ff_block l t n2) (\<lambda>ff. lift (add x1 ff))) g3
          = Inr (z, g'') \<and> shape z = [B, S, E]"
        proof (rule rand_shape_bind [where sh = "[B, S, E]"])
          show "\<exists>y g'. lift (layer_norm_forward (norm2 l) x1) g3 = Inr (y, g') \<and> shape y = [B, S, E]"
            using layer_norm_forward_shape [OF n2, of x1] x1 by (intro rand_shape_lift) simp
        next
          fix y2 g4 assume y2: "shape y2 = [B, S, E]"
          show "\<exists>z g''. rbind (ff_block l t y2) (\<lambda>ff. lift (add x1 ff)) g4
             = Inr (z, g'') \<and> shape z = [B, S, E]"
          proof (rule rand_shape_bind [where sh = "[B, S, E]"])
            show "\<exists>y g'. ff_block l t y2 g4 = Inr (y, g') \<and> shape y = [B, S, E]"
              by (rule ff_block_shape [OF assms(1) y2])
          next
            fix ff g5 assume ff: "shape ff = [B, S, E]"
            show "\<exists>z g''. lift (add x1 ff) g5 = Inr (z, g'') \<and> shape z = [B, S, E]"
              using add_same_shape [OF x1 ff] by (intro rand_shape_lift)
          qed
        qed
      qed
    qed
  qed
qed

lemma encoder_forward_shape:
  "list_all (wf_encoder_layer E F) ls \<Longrightarrow> shape x = [B, S, E] \<Longrightarrow>
   \<exists>y g'. encoder_forward ls t x g = Inr (y, g') \<and> shape y = [B, S, E]"
proof (induction ls arbitrary: x g)
  case Nil
  then show ?case by simp
next
  case (Cons l ls)
  show ?case
    unfolding encoder_forward.simps
  proof (rule rand_shape_bind [where sh = "[B, S, E]"])
    show "\<exists>y g'. encoder_layer_forward l t x g = Inr (y, g') \<and> shape y = [B, S, E]"
      using Cons.prems by (intro encoder_layer_forward_shape [where F = F]) simp_all
  next
    fix y g' assume "shape y = [B, S, E]"
    then show "\<exists>z g''. encoder_forward ls t y g' = Inr (z, g'') \<and> shape z = [B, S, E]"
      using Cons.prems by (intro Cons.IH) simp_all
  qed
qed

subsection \<open>The forward pass of the model and its constructor: auxiliary facts\<close>

lemma MLPHead_forward_shape:
  assumes "wf_layer_norm D (head_norm h)" "wf_linear D K (head_linear h)" "shape x = [B, D]"
  shows "\<exists>y. MLPHead_forward h x = Inr y \<and> shape y = [B, K]"
proof -
  from layer_norm_forward_shape [OF assms(1), of x] assms(3) obtain n
    where n: "layer_norm_forward (head_norm h) x = Inr n" "shape n = [B, D]" by auto
  from linear_forward_shape [OF assms(2), of n] n(2) obtain y
    where "linear_forward (head_linear h) n = Inr y" "shape y = [B, K]" by auto
  with n show ?thesis by (simp add: MLPHead_forward_def)
qed

lemma PatchEmbedding_forward_shape_floor:
  assumes "wf_conv2d C D P pe" "shape x = [B, C, H, W]" "0 < P" "P \<le> H" "P \<le> W"
  shows "\<exists>y. PatchEmbedding_forward pe x = Inr y \<and> shape y = [B, conv_out H P P * conv_out W P P, D]"
proof -
  from conv2d_forward_shape [OF assms] obtain y1
    where y1: "conv2d_forward pe x = Inr y1" "shape y1 = [B, D, conv_out H P P, conv_out W P P]"
    by blast
  from flatten_2_3_shape [OF y1(2)] obtain y2
    where y2: "flatten_2_3 y1 = Inr y2" "shape y2 = [B, D, conv_out H P P * conv_out W P P]"
    by blast
  from permute_0_2_1_shape [OF y2(2)] obtain y3
    where y3: "permute_0_2_1 y2 = Inr y3" "shape y3 = [B, conv_out H P P * conv_out W P P, D]"
    by blast
  show ?thesis using y1 y2 y3 by (simp add: PatchEmbedding_forward_def)
qed

lemma ViT_forward_steps:
  assumes wf: "wf_vit cfg m" and np: "num_patches cfg = Inr N"
    and x: "shape x = [B, num_channels cfg, H, W]"
    and le: "patch_size cfg \<le> H" "patch_size cfg \<le> W"
    and n: "conv_out H (patch_size cfg) (patch_size cfg) * conv_out W (patch_size cfg) (patch_size cfg) = N"
  shows "\<exists>tok e c a d g1 z g2 s y.
      expand3 (prepend_embed_token m) B = Inr tok
    \<and> PatchEmbedding_forward (patch_embedding m) x = Inr e \<and> shape e = [B, N, embed_dim cfg]
    \<and> cat_dim1 tok e = Inr c \<and> shape c = [B, N + 1, embed_dim cfg]
    \<and> add c (position_embed_token m) = Inr a \<and> shape a = [B, N + 1, embed_dim cfg]
    \<and> dropout (embedding_dropout m) (training m) a g = Inr (d, g1)
    \<and> TransformerEncoder_forward (transformer_encoder m) (training m) d g1 = Inr (z, g2)
    \<and> shape z = [B, N + 1, embed_dim cfg]
    \<and> select_1_0 z = Inr s \<and> shape s = [B, embed_dim cfg]
    \<and> MLPHead_forward (mlp_head m) s = Inr y
    \<and> ViT_forward m x g = Inr (y, g2) \<and> shape y = [B, num_classes cfg]"
proof -
  from np have p: "0 < patch_size cfg"
    by (auto simp: num_patches_def split: if_splits)
  from wf np have w:
    "wf_conv2d (num_channels cfg) (embed_dim cfg) (patch_size cfg) (patch_embedding m)"
    "shape (prepend_embed_token m) = [1, 1, embed_dim cfg]"
    "shape (position_embed_token m) = [1, N + 1, embed_dim cfg]"
    "list_all (wf_encoder_layer (embed_dim cfg) (mlp_size cfg))
       (full_transformer_encoder (transformer_encoder m))"
    "wf_layer_norm (embed_dim cfg) (head_norm (mlp_head m))"
    "wf_linear (embed_dim cfg) (num_classes cfg) (head_linear (mlp_head m))"
    by (simp_all add: wf_vit_def)
  from expand3_shape [OF w(2), of B] obtain tok
    where tok: "expand3 (prepend_embed_token m) B = Inr tok" "shape tok = [B, 1, embed_dim cfg]"
    by blast
  from PatchEmbedding_forward_shape_floor [OF w(1) x p le] n obtain e
    where e: "PatchEmbedding_forward (patch_embedding m) x = Inr e" "shape e = [B, N, embed_dim cfg]"
    by auto
  from cat_dim1_shape [OF tok(2) e(2)] obtain c
    where c: "cat_dim1 tok e = Inr c" "shape c = [B, N + 1, embed_dim cfg]" by auto
  from add_broadcast_batch_shape [OF c(2) w(3)] obtain a
    where a: "add c (position_embed_token m) = Inr a" "shape a = [B, N + 1, embed_dim cfg]" by blast
  from dropout_shape [of "embedding_dropout m" "training m" a g] a(2) obtain d g1
    where d: "dropout (embedding_dropout m) (training m) a g = Inr (d, g1)"
      "shape d = [B, N + 1, embed_dim cfg]" by auto
  from encoder_forward_shape [OF w(4) d(2), of "training m" g1] obtain z g2
    where z: "TransformerEncoder_forward (transformer_encoder m) (training m) d g1 = Inr (z, g2)"
      "shape z = [B, N + 1, embed_dim cfg]"
    by (auto simp: TransformerEncoder_forward_def)
  from select_1_0_shape [of z B N "embed_dim cfg"] z(2) obtain s
    where s: "select_1_0 z = Inr s" "shape s = [B, embed_dim cfg]" by auto
  from MLPHead_forward_shape [OF w(5) w(6) s(2)] obtain y
    where y: "MLPHead_forward (mlp_head m) s = Inr y" "shape y = [B, num_classes cfg]" by blast
  have "ViT_forward m x g = Inr (y, g2)"
    unfolding ViT_forward_def
    using x tok e c a d z s y by (simp add: size0_def rbind_def)
  with tok e c a d z s y show ?thesis by blast
qed

lemma list_all_replicate: "list_all P (replicate n v) = (n = 0 \<or> P v)"
  by (induction n) auto

lemma wf_Linear_init: "wf_linear i out (Linear_init i out rnd k)"
  by (simp add: wf_linear_def Linear_init_def)

lemma wf_LayerNorm_init: "wf_layer_norm n (LayerNorm_init n eps)"
  by (simp add: wf_layer_norm_def LayerNorm_init_def ones_def zeros_def)

lemma wf_MultiheadAttention_init:
  "MultiheadAttention_init e h p rnd = Inr a \<Longrightarrow> wf_mha e a \<and> mha_dropout a = p \<and> mha_num_heads a = h"
  by (auto simp: MultiheadAttention_init_def wf_mha_def wf_linear_def zeros_def split: if_splits)

lemma wf_TransformerEncoderLayer_init:
  "TransformerEncoderLayer_init e h f p rnd = Inr l \<Longrightarrow> wf_encoder_layer e f l"
  by (auto simp: TransformerEncoderLayer_init_def ebind_def wf_encoder_layer_def wf_Linear_init
        wf_LayerNorm_init dest: wf_MultiheadAttention_init split: sum.splits)

lemma ViT_init_wf: "ViT_init cfg rnd = Inr m \<Longrightarrow> wf_vit cfg m"
  by (auto simp: ViT_init_def ebind_def wf_vit_def TransformerEncoder_init_def MLPHead_init_def
        Conv2d_init_def wf_conv2d_def wf_Linear_init wf_LayerNorm_init list_all_replicate
        dest: wf_TransformerEncoderLayer_init split: sum.splits)

lemma ViT_forward_shape_mismatch:
  assumes wf: "wf_vit cfg m" and np: "num_patches cfg = Inr N"
    and x: "shape x = [B, num_channels cfg, H, W]"
    and le: "patch_size cfg \<le> H" "patch_size cfg \<le> W"
    and n: "conv_out H (patch_size cfg) (patch_size cfg) * conv_out W (patch_size cfg) (patch_size cfg) \<noteq> N"
      "N \<noteq> 0"
  shows "ViT_forward m x g = Inl RuntimeError"
proof -
  define n where "n = conv_out H (patch_size cfg) (patch_size cfg) * conv_out W (patch_size cfg) (patch_size cfg)"
  from np have p: "0 < patch_size cfg"
    by (auto simp: num_patches_def split: if_splits)
  from wf np have w:
    "wf_conv2d (num_channels cfg) (embed_dim cfg) (patch_size cfg) (patch_embedding m)"
    "shape (prepend_embed_token m) = [1, 1, embed_dim cfg]"
    "shape (position_embed_token m) = [1, N + 1, embed_dim cfg]"
    by (simp_all add: wf_vit_def)
  from expand3_shape [OF w(2), of B] obtain tok
    where tok: "expand3 (prepend_embed_token m) B = Inr tok" "shape tok = [B, 1, embed_dim cfg]"
    by blast
  from PatchEmbedding_forward_shape_floor [OF w(1) x p le] obtain e
    where e: "PatchEmbedding_forward (patch_embedding m) x = Inr e" "shape e = [B, n, embed_dim cfg]"
    by (auto simp: n_def)
  from cat_dim1_shape [OF tok(2) e(2)] obtain c
    where c: "cat_dim1 tok e = Inr c" "shape c = [B, n + 1, embed_dim cfg]" by auto
  have "0 < n" using p le by (simp add: n_def conv_out_def)
  then have "add c (position_embed_token m) = Inl RuntimeError"
    using c(2) w(3) assms(6,7) by (auto simp: add_def broadcast_shapes_def n_def)
  then show ?thesis
    unfolding ViT_forward_def
    using x tok e c by (simp add: size0_def rbind_def)
qed

lemma reference_model_init: "ViT_init reference_config zero_init = Inr reference_model"
  by (simp add: reference_model_def ViT_init_def reference_config_def num_patches_def
      Dropout_init_def TransformerEncoder_init_def TransformerEncoderLayer_init_def
      MultiheadAttention_init_def)


lemma num_patches_reference: "num_patches reference_config = Inr 196"
  by (simp add: num_patches_def reference_config_def)





subsection \<open>Dropout and the random number generator: auxiliary facts\<close>

lemma rng_free_lift: "rng_free (lift v)"
  unfolding rng_free_def by blast

lemma rng_free_rbind:
  assumes "rng_free m" "\<And>a. rng_free (k a)"
  shows "rng_free (rbind m k)"
proof -
  from assms(1) obtain v where v: "\<And>g. m g = lift v g" unfolding rng_free_def by blast
  show ?thesis
  proof (cases v)
    case (Inl e)
    then have "\<forall>g. rbind m k g = lift (Inl e) g" using v by (simp add: rbind_def)
    then show ?thesis unfolding rng_free_def by blast
  next
    case (Inr a)
    from assms(2) [of a] obtain w where w: "\<And>g. k a g = lift w g" unfolding rng_free_def by blast
    have "\<forall>g. rbind m k g = lift w g" using v Inr w by (simp add: rbind_def)
    then show ?thesis unfolding rng_free_def by blast
  qed
qed

lemma rng_free_dropout_eval: "rng_free (dropout p False x)"
proof -
  have "\<forall>g. dropout p False x g = lift (Inr x) g" by (simp add: dropout_def)
  then show ?thesis unfolding rng_free_def by blast
qed

lemma rng_free_mha_forward_eval: "rng_free (mha_forward a False x)"
proof -
  have c: "rng_free (mha_core a False pre S x)" for pre S
    unfolding mha_core_def Let_def
    by (intro rng_free_rbind rng_free_dropout_eval rng_free_lift)
  show ?thesis
    unfolding mha_forward_def
    by (auto intro: c rng_free_lift split: list.splits)
qed

lemma rng_free_encoder_layer_eval: "rng_free (encoder_layer_forward l False x)"
  unfolding encoder_layer_forward_def sa_block_def ff_block_def
  by (intro rng_free_rbind rng_free_dropout_eval rng_free_lift rng_free_mha_forward_eval)

lemma rng_free_encoder_eval: "rng_free (encoder_forward ls False x)"
proof (induction ls arbitrary: x)
  case Nil
  show ?case unfolding encoder_forward.simps by (rule rng_free_lift)
next
  case (Cons l ls)
  show ?case
    unfolding encoder_forward.simps
    by (intro rng_free_rbind rng_free_encoder_layer_eval Cons.IH)
qed

lemma rng_free_ViT_forward_eval:
  assumes "\<not> training m"
  shows "rng_free (ViT_forward m x)"
proof -
  have t: "training m = False" using assms by simp
  show ?thesis
    unfolding ViT_forward_def TransformerEncoder_forward_def t
    by (intro rng_free_rbind rng_free_dropout_eval rng_free_lift rng_free_encoder_eval)
qed

lemma rng_free_twice:
  assumes "rng_free m"
  shows "m g' = (case m g of Inl e \<Rightarrow> Inl e | Inr (y, g1) \<Rightarrow> Inr (y, g'))"
    and "m g = Inr (y, g1) \<Longrightarrow> g1 = g"
proof -
  from assms obtain v where v: "\<And>g. m g = lift v g" unfolding rng_free_def by blast
  show "m g' = (case m g of Inl e \<Rightarrow> Inl e | Inr (y, g1) \<Rightarrow> Inr (y, g'))"
    by (cases v) (simp_all add: v)
  show "m g = Inr (y, g1) \<Longrightarrow> g1 = g"
    by (cases v) (simp_all add: v)
qed


lemma tiny_model_fields:
  "patch_embedding tiny_model = Conv2d_init 1 2 1 1 tiny_init"
  "prepend_embed_token tiny_model = mk [1, 1, 2] (tiny_init 2)"
  "position_embed_token tiny_model = mk [1, 1 + 1, 2] (tiny_init 3)"
  "embedding_dropout tiny_model = 1 / 2"
  "full_transformer_encoder (transformer_encoder tiny_model) = []"
  "mlp_head tiny_model = MLPHead_init tiny_config tiny_init"
  "training tiny_model = True"
  by (simp_all add: tiny_model_def ViT_init_def tiny_config_def num_patches_def
      Dropout_init_def TransformerEncoder_init_def TransformerEncoderLayer_init_def
      MultiheadAttention_init_def)

lemma elem_mk: "elem (mk sh f) idx = (if valid sh idx then f idx else 0)"
  by (simp add: mk_def)

lemma tiny_embedding:
  "\<exists>e. PatchEmbedding_forward (patch_embedding tiny_model) (zeros [1, 1, 1, 1]) = Inr e
       \<and> shape e = [1, 1, 2] \<and> elem e [0, 0, 0] = 0 \<and> elem e [0, 0, 1] = 0"
  by (simp add: tiny_model_fields PatchEmbedding_forward_def conv2d_forward_def Conv2d_init_def
      zeros_def flatten_2_3_def permute_0_2_1_def conv_out_def elem_mk valid_def conv_elem_def
      tiny_init_def)

lemma two_sum: "(\<Sum>i<2. f i) = f 0 + f (1::nat)"
  by (simp add: numeral_2_eq_2)

lemma tiny_forward:
  "\<exists>y. ViT_forward tiny_model (zeros [1, 1, 1, 1]) g = Inr (y, \<lambda>n. g (Suc n))
     \<and> elem y [0, 0] = (if g 0 [0, 0, 0] then 1 / sqrt (1 + 1 / 100000) else 0)"
proof -
  have x: "size0 (zeros [1, 1, 1, 1]) = Inr 1"
    by (simp add: size0_def zeros_def)
  obtain tok where tok: "expand3 (prepend_embed_token tiny_model) 1 = Inr tok"
    "shape tok = [1, 1, 2]" "elem tok [0, 0, 0] = 1" "elem tok [0, 0, 1] = 0"
    by (simp add: tiny_model_fields expand3_def elem_mk valid_def tiny_init_def)
  from tiny_embedding obtain e where e:
    "PatchEmbedding_forward (patch_embedding tiny_model) (zeros [1, 1, 1, 1]) = Inr e"
    "shape e = [1, 1, 2]" "elem e [0, 0, 0] = 0" "elem e [0, 0, 1] = 0" by blast
  obtain c where c: "cat_dim1 tok e = Inr c" "shape c = [1, 2, 2]"
    "elem c [0, 0, 0] = 1" "elem c [0, 0, 1] = 0"
    using tok(2-4) e(2) by (simp add: cat_dim1_def elem_mk valid_def)
  obtain a where a: "add c (position_embed_token tiny_model) = Inr a" "shape a = [1, 2, 2]"
    "elem a [0, 0, 0] = 1" "elem a [0, 0, 1] = 0"
    using c(2-4)
    by (simp add: tiny_model_fields add_def broadcast_shapes_def elem_mk valid_def bidx_def
        tiny_init_def)
  obtain d where d: "dropout (embedding_dropout tiny_model) (training tiny_model) a g
      = Inr (d, \<lambda>n. g (Suc n))" "shape d = [1, 2, 2]"
    "elem d [0, 0, 0] = (if g 0 [0, 0, 0] then 2 else 0)" "elem d [0, 0, 1] = 0"
    using a(2-4) by (simp add: tiny_model_fields dropout_def elem_mk valid_def)
  have z: "TransformerEncoder_forward (transformer_encoder tiny_model) (training tiny_model) d
      (\<lambda>n. g (Suc n)) = Inr (d, \<lambda>n. g (Suc n))"
    by (simp add: TransformerEncoder_forward_def tiny_model_fields)
  obtain s where s: "select_1_0 d = Inr s" "shape s = [1, 2]"
    "elem s [0, 0] = (if g 0 [0, 0, 0] then 2 else 0)" "elem s [0, 1] = 0"
    using d(2-4) by (simp add: select_1_0_def elem_mk valid_def)
  obtain nm where nm: "layer_norm_forward (head_norm (mlp_head tiny_model)) s = Inr nm"
    "shape nm = [1, 2]"
    "elem nm [0, 0] = (if g 0 [0, 0, 0] then 1 / sqrt (1 + 1 / 100000) else 0)"
    using s(2-4)
    by (simp add: tiny_model_fields MLPHead_init_def LayerNorm_init_def tiny_config_def
        layer_norm_forward_def ones_def zeros_def elem_mk valid_def layer_norm_elem_def
        mean_last_def var_last_def two_sum power2_eq_square)
  obtain y where y: "linear_forward (head_linear (mlp_head tiny_model)) nm = Inr y"
    "elem y [0, 0] = elem nm [0, 0]"
    using nm(2)
    by (simp add: tiny_model_fields MLPHead_init_def Linear_init_def tiny_config_def
        linear_forward_def elem_mk valid_def linear_elem_def two_sum tiny_init_def)
  have "ViT_forward tiny_model (zeros [1, 1, 1, 1]) g = Inr (y, \<lambda>n. g (Suc n))"
    unfolding ViT_forward_def
    by (simp only: x tok(1) e(1) c(1) a(1) rbind_def d(1) z s(1) MLPHead_forward_def nm(1) y(1)
        lift_simps ebind_simps sum.case prod.case)
  with y(2) nm(3) show ?thesis by simp
qed

subsection \<open>Layers as functions, and permutations: auxiliary facts\<close>

lemma mk_cong: "(\<And>idx. valid sh idx \<Longrightarrow> f idx = g idx) \<Longrightarrow> mk sh f = mk sh g"
  by (auto simp: mk_def)

lemma valid3: "valid [B, S, E] idx = (\<exists>b i c. idx = [b, i, c] \<and> b < B \<and> i < S \<and> c < E)"
  by (auto simp: valid_def list_all2_Cons2)

lemma valid4:
  "valid [B, H, S, T] idx = (\<exists>b h i j. idx = [b, h, i, j] \<and> b < B \<and> h < H \<and> i < S \<and> j < T)"
  by (auto simp: valid_def list_all2_Cons2)

lemma layer_norm_forward_eq:
  "wf_layer_norm n nrm \<Longrightarrow> shape x \<noteq> [] \<Longrightarrow> last (shape x) = n \<Longrightarrow>
   layer_norm_forward nrm x = Inr (LayerNorm_f nrm x)"
  by (simp add: layer_norm_forward_def wf_layer_norm_def LayerNorm_f_def)

lemma linear_forward_eq:
  "wf_linear inp out l \<Longrightarrow> shape x \<noteq> [] \<Longrightarrow> last (shape x) = inp \<Longrightarrow>
   linear_forward l x = Inr (Linear_f l x)"
  by (simp add: linear_forward_def wf_linear_def Linear_f_def)

lemma dropout_off: "\<not> t \<or> p = 0 \<Longrightarrow> dropout p t x g = Inr (x, g)"
  by (auto simp: dropout_def)

lemma mha_forward_eq:
  assumes "wf_mha E a" "shape x = [B, S, E]" "\<not> t \<or> mha_dropout a = 0"
  shows "mha_forward a t x g = Inr (Attention_f a x, g)"
proof -
  have l: "wf_linear E E (out_proj a)" using assms(1) by (simp add: wf_mha_def)
  define w where "w = mk ([B] @ [mha_num_heads a, S, S])
     (\<lambda>idx. attn_weight a S (elem x) (take (length [B]) idx) (idx ! length [B])
        (idx ! (length [B] + 1)) (idx ! (length [B] + 2)))"
  define w0 where "w0 = mk [B, mha_num_heads a, S, S]
     (\<lambda>idx. attn_weight a S (elem x) [idx ! 0] (idx ! 1) (idx ! 2) (idx ! 3))"
  have w: "w = w0"
    unfolding w_def w0_def append_Cons append_Nil
    by (rule mk_cong) (auto simp: valid4)
  have v: "mk (shape x) (\<lambda>idx. attn_values a S (elem x) (elem w) (take (length [B]) idx)
              (idx ! length [B]) (idx ! (length [B] + 1)))
         = mk (shape x) (\<lambda>idx. attn_values a S (elem x) (elem w0) [idx ! 0] (idx ! 1) (idx ! 2))"
    unfolding assms(2) w
    by (rule mk_cong) (auto simp: valid3)
  define v0 where "v0 = mk (shape x) (\<lambda>idx. attn_values a S (elem x) (elem w0) [idx ! 0] (idx ! 1) (idx ! 2))"
  have c: "mha_core a t [B] S x g = lift (linear_forward (out_proj a) v0) g"
    by (simp only: mha_core_def Let_def w_def [symmetric] rbind_def dropout_off [OF assms(3)]
        sum.case prod.case v v0_def [symmetric])
  have "linear_forward (out_proj a) v0 = Inr (Linear_f (out_proj a) v0)"
    by (rule linear_forward_eq [OF l]) (simp_all add: v0_def assms(2))
  moreover have "Attention_f a x = Linear_f (out_proj a) v0"
    by (simp add: Attention_f_def v0_def w0_def assms(2))
  ultimately have "mha_core a t [B] S x g = Inr (Attention_f a x, g)"
    using c by simp
  then show ?thesis using assms(1,2) by (simp add: mha_forward_def wf_mha_def)
qed

lemma is_permutation_bij:
  assumes "is_permutation p n"
  shows "bij_betw (\<lambda>j. p ! j) {..<n} {..<n}"
proof -
  from assms have l: "length p = n" and d: "distinct p" and b: "set p \<subseteq> {..<n}"
    by (auto simp: is_permutation_def list_all_iff)
  have inj: "inj_on (\<lambda>j. p ! j) {..<n}"
    using d l by (auto simp: inj_on_def nth_eq_iff_index_eq)
  have "(\<lambda>j. p ! j) ` {..<n} = set p"
    using l by (auto simp: set_conv_nth)
  moreover have "set p = {..<n}"
  proof (rule card_subset_eq)
    show "card (set p) = card {..<n}" using d l by (simp add: distinct_card)
  qed (use b in auto)
  ultimately show ?thesis using inj by (simp add: bij_betw_def)
qed

lemma sum_permutation:
  "is_permutation p n \<Longrightarrow> (\<Sum>j<n. f (p ! j)) = (\<Sum>j<n. f j)"
  by (rule sum.reindex_bij_betw [OF is_permutation_bij])

lemma is_permutation_nth: "is_permutation p n \<Longrightarrow> i < n \<Longrightarrow> p ! i < n"
  by (auto simp: is_permutation_def list_all_length)

lemma permutedD:
  "permuted p B S E F G \<Longrightarrow> b < B \<Longrightarrow> i < S \<Longrightarrow> c < E \<Longrightarrow> F [b, i, c] = G [b, p ! i, c]"
  by (simp add: permuted_def)

lemma permuted_layer_norm:
  assumes "permuted p B S E F G" "normalized_shape nrm = E"
  shows "permuted p B S E (layer_norm_elem nrm F) (layer_norm_elem nrm G)"
proof -
  have m: "mean_last F E [b, i] = mean_last G E [b, p ! i]" if "b < B" "i < S" for b i
    using that assms(1) by (simp add: mean_last_def permuted_def)
  have v: "var_last F E [b, i] = var_last G E [b, p ! i]" if "b < B" "i < S" for b i
    using that assms(1) m [OF that] by (simp add: var_last_def permuted_def)
  show ?thesis
    unfolding permuted_def
    using assms m v by (simp add: layer_norm_elem_def permuted_def Let_def)
qed

lemma permuted_mk:
  assumes "is_permutation p S" "permuted p B S E F G"
  shows "permuted p B S E (elem (mk [B, S, E] F)) (elem (mk [B, S, E] G))"
  unfolding permuted_def
  using assms is_permutation_nth [OF assms(1)]
  by (simp add: elem_mk valid3 permuted_def)

lemma permuted_in_proj:
  assumes "permuted p B S E F G" "mha_embed_dim a = E" "b < B" "s < S"
  shows "in_proj a r F [b] s c = in_proj a r G [b] (p ! s) c"
  using assms by (simp add: in_proj_def permuted_def)

lemma permuted_attn_score:
  assumes "permuted p B S E F G" "mha_embed_dim a = E" "b < B" "i < S" "j < S"
  shows "attn_score a F [b] h i j = attn_score a G [b] h (p ! i) (p ! j)"
  using assms
  by (simp add: attn_score_def permuted_in_proj [OF assms(1,2,3)])

lemma permuted_attn_weight:
  assumes "is_permutation p S" "permuted p B S E F G" "mha_embed_dim a = E" "b < B" "i < S" "j < S"
  shows "attn_weight a S F [b] h i j = attn_weight a S G [b] h (p ! i) (p ! j)"
proof -
  have "(\<Sum>j'<S. exp (attn_score a F [b] h i j')) = (\<Sum>j'<S. exp (attn_score a G [b] h (p ! i) (p ! j')))"
    using assms by (simp add: permuted_attn_score [OF assms(2,3,4,5)])
  also have "\<dots> = (\<Sum>j'<S. exp (attn_score a G [b] h (p ! i) j'))"
    by (rule sum_permutation [OF assms(1)])
  finally show ?thesis
    by (simp add: attn_weight_def permuted_attn_score [OF assms(2,3,4,5,6)])
qed

lemma permuted_weights:
  assumes "is_permutation p S" "permuted p B S E F G" "mha_embed_dim a = E" "b < B" "i < S" "j < S"
  shows "elem (mk [B, H, S, S] (\<lambda>idx. attn_weight a S F [idx ! 0] (idx ! 1) (idx ! 2) (idx ! 3))) [b, h, i, j]
       = elem (mk [B, H, S, S] (\<lambda>idx. attn_weight a S G [idx ! 0] (idx ! 1) (idx ! 2) (idx ! 3)))
           [b, h, p ! i, p ! j]"
  using assms is_permutation_nth [OF assms(1)] permuted_attn_weight [OF assms]
  by (simp add: elem_mk valid4)

lemma permuted_attn_values:
  assumes "is_permutation p S" "permuted p B S E F G" "mha_embed_dim a = E"
  shows "permuted p B S E
     (\<lambda>idx. attn_values a S F
        (elem (mk [B, H, S, S] (\<lambda>idx. attn_weight a S F [idx ! 0] (idx ! 1) (idx ! 2) (idx ! 3))))
        [idx ! 0] (idx ! 1) (idx ! 2))
     (\<lambda>idx. attn_values a S G
        (elem (mk [B, H, S, S] (\<lambda>idx. attn_weight a S G [idx ! 0] (idx ! 1) (idx ! 2) (idx ! 3))))
        [idx ! 0] (idx ! 1) (idx ! 2))"
  unfolding permuted_def
proof (intro allI impI)
  fix b i c assume b: "b < B" and i: "i < S" and c: "c < E"
  define WF where "WF = elem (mk [B, H, S, S] (\<lambda>idx. attn_weight a S F [idx ! 0] (idx ! 1) (idx ! 2) (idx ! 3)))"
  define WG where "WG = elem (mk [B, H, S, S] (\<lambda>idx. attn_weight a S G [idx ! 0] (idx ! 1) (idx ! 2) (idx ! 3)))"
  have "attn_values a S F WF [b] i c
      = (\<Sum>j<S. WG [b, c div mha_head_dim a, p ! i, p ! j] * in_proj a 2 G [b] (p ! j) c)"
    unfolding attn_values_def WF_def WG_def
    using permuted_weights [OF assms b i] permuted_in_proj [OF assms(2,3) b]
    by simp
  also have "\<dots> = (\<Sum>j<S. WG [b, c div mha_head_dim a, p ! i, j] * in_proj a 2 G [b] j c)"
    by (rule sum_permutation [OF assms(1)])
  finally show "attn_values a S F WF [[b, i, c] ! 0] ([b, i, c] ! 1) ([b, i, c] ! 2)
      = attn_values a S G WG [[b, p ! i, c] ! 0] ([b, p ! i, c] ! 1) ([b, p ! i, c] ! 2)"
    by (simp add: attn_values_def)
qed

lemma permuted_linear:
  assumes "permuted p B S E F G"
  shows "permuted p B S E' (linear_elem l E F) (linear_elem l E G)"
  unfolding permuted_def
  using assms by (simp add: linear_elem_def permuted_def)


lemma Linear_f_mk3:
  "wf_linear E E' l \<Longrightarrow>
   Linear_f l (mk [B, S, E] V) = mk [B, S, E'] (linear_elem l E (elem (mk [B, S, E] V)))"
  by (simp add: Linear_f_def wf_linear_def)

lemma Attention_f_unfold:
  assumes "wf_mha E a" "shape n = [B, S, E]"
  shows "Attention_f a n = mk [B, S, E] (linear_elem (out_proj a) E (elem (mk [B, S, E]
     (\<lambda>idx. attn_values a S (elem n)
        (elem (mk [B, mha_num_heads a, S, S]
           (\<lambda>idx. attn_weight a S (elem n) [idx ! 0] (idx ! 1) (idx ! 2) (idx ! 3))))
        [idx ! 0] (idx ! 1) (idx ! 2)))))"
proof -
  have l: "wf_linear E E (out_proj a)" using assms(1) by (simp add: wf_mha_def)
  show ?thesis
    unfolding Attention_f_def Let_def assms(2)
    by (simp add: Linear_f_mk3 [OF l])
qed

lemma MultiheadSelfAttention_forward_eq:
  assumes "wf_msa E m" "shape z = [B, S, E]" "mha_dropout (msa m) = 0"
  shows "MultiheadSelfAttention_forward m z g = Inr (Attention_f (msa m) (LayerNorm_f (msa_norm m) z), g)"
proof -
  have n: "layer_norm_forward (msa_norm m) z = Inr (LayerNorm_f (msa_norm m) z)"
    using assms(1,2) by (intro layer_norm_forward_eq [where n = E]) (simp_all add: wf_msa_def)
  have s: "shape (LayerNorm_f (msa_norm m) z) = [B, S, E]"
    using assms(2) by (simp add: LayerNorm_f_def)
  have "wf_mha E (msa m)" using assms(1) by (simp add: wf_msa_def)
  from mha_forward_eq [OF this s, of "msa_training m" g] assms(3)
  show ?thesis
    by (simp add: MultiheadSelfAttention_forward_def n)
qed


lemma MultiheadSelfAttention_init_wf:
  "MultiheadSelfAttention_init cfg rnd = Inr m \<Longrightarrow>
   wf_msa (embed_dim cfg) m \<and> mha_dropout (msa m) = 0"
  by (auto simp: MultiheadSelfAttention_init_def ebind_def wf_msa_def wf_LayerNorm_init
      dest: wf_MultiheadAttention_init split: sum.splits)

lemma tiny_msa_init: "MultiheadSelfAttention_init tiny_config tiny_init = Inr tiny_msa"
  by (simp add: tiny_msa_def MultiheadSelfAttention_init_def MultiheadAttention_init_def
      tiny_config_def)


subsection \<open>Shapes along the forward pass\<close>

text \<open>
  Claim C3. For a patch embedding whose convolution has the shapes of the configuration
  (\<open>C\<close> input channels, \<open>D\<close> output channels, kernel and stride \<open>P > 0\<close>) and every image batch
  of shape \<open>[B, C, H, W]\<close> with positive \<open>H\<close> and \<open>W\<close> divisible by \<open>P\<close>, \<open>PatchEmbedding.forward\<close>
  returns a tensor of shape \<open>[B, (H / P) * (W / P), D]\<close>: the sequence length does not
  depend on \<open>B\<close>, the feature dimension is \<open>D\<close>.
\<close>

theorem PatchEmbedding_output_shape:
  "wf_conv2d C D P pe \<Longrightarrow> shape x = [B, C, H, W] \<Longrightarrow> 0 < P \<Longrightarrow> P dvd H \<Longrightarrow> P dvd W \<Longrightarrow>
   0 < H \<Longrightarrow> 0 < W \<Longrightarrow>
   \<exists>y. PatchEmbedding_forward pe x = Inr y \<and> shape y = [B, (H div P) * (W div P), D]"
  by (rule PatchEmbedding_forward_shape)

text \<open>The reference configuration: five images of 224 by 224 pixels give \<open>[5, 196, 768]\<close>.\<close>

theorem PatchEmbedding_output_shape_witness:
  "wf_conv2d 3 768 16 (patch_embedding reference_model)
   \<and> shape (zeros [5, 3, 224, 224]) = [5, 3, 224, 224]
   \<and> (0::nat) < 16 \<and> (16::nat) dvd 224 \<and> (0::nat) < 224
   \<and> (\<exists>y. PatchEmbedding_forward (patch_embedding reference_model) (zeros [5, 3, 224, 224]) = Inr y
          \<and> shape y = [5, 196, 768])"
proof -
  have w: "wf_conv2d 3 768 16 (patch_embedding reference_model)"
    using ViT_init_wf [OF reference_model_init]
    by (simp add: wf_vit_def num_patches_reference) (simp add: reference_config_def)
  have s: "shape (zeros [5, 3, 224, 224]) = [5, 3, 224, 224]"
    by (simp add: zeros_def)
  have d: "(16::nat) dvd 224" by simp
  from PatchEmbedding_output_shape [OF w s _ d d]
  show ?thesis using w s by simp
qed

text \<open>
  Claim C1, amended. For a model with parameters of the shapes of its configuration and every
  image batch \<open>[B, num_channels, H, W]\<close> with positive \<open>H\<close> and \<open>W\<close> divisible by \<open>patch_size\<close>
  and with \<open>(H / patch_size) * (W / patch_size) = num_patches\<close>, the forward pass runs, in
  this order, the patch embedding (\<open>[B, N, D]\<close>), the class token expanded to the batch and
  prepended (\<open>[B, N + 1, D]\<close>), the addition of the position embedding, dropout, the encoder
  stack, the selection of position 0 (\<open>[B, D]\<close>) and the head, and returns logits of shape
  \<open>[B, num_classes]\<close>.
\<close>

theorem ViT_forward_pipeline:
  assumes wf: "wf_vit cfg m" and np: "num_patches cfg = Inr N"
    and x: "shape x = [B, num_channels cfg, H, W]" and pos: "0 < H" "0 < W"
    and dv: "patch_size cfg dvd H" "patch_size cfg dvd W"
    and n: "(H div patch_size cfg) * (W div patch_size cfg) = N"
  shows "\<exists>tok e c a d g1 z g2 s y.
      expand3 (prepend_embed_token m) B = Inr tok
    \<and> PatchEmbedding_forward (patch_embedding m) x = Inr e \<and> shape e = [B, N, embed_dim cfg]
    \<and> cat_dim1 tok e = Inr c \<and> shape c = [B, N + 1, embed_dim cfg]
    \<and> add c (position_embed_token m) = Inr a \<and> shape a = [B, N + 1, embed_dim cfg]
    \<and> dropout (embedding_dropout m) (training m) a g = Inr (d, g1)
    \<and> TransformerEncoder_forward (transformer_encoder m) (training m) d g1 = Inr (z, g2)
    \<and> shape z = [B, N + 1, embed_dim cfg]
    \<and> select_1_0 z = Inr s \<and> shape s = [B, embed_dim cfg]
    \<and> MLPHead_forward (mlp_head m) s = Inr y
    \<and> ViT_forward m x g = Inr (y, g2) \<and> shape y = [B, num_classes cfg]"
proof -
  from np have p: "0 < patch_size cfg"
    by (auto simp: num_patches_def split: if_splits)
  have le: "patch_size cfg \<le> H" "patch_size cfg \<le> W"
    using dv pos by (auto dest: dvd_imp_le)
  have "conv_out H (patch_size cfg) (patch_size cfg) * conv_out W (patch_size cfg) (patch_size cfg) = N"
    using n p dv pos by (simp add: conv_out_dvd)
  from ViT_forward_steps [OF wf np x le this] show ?thesis .
qed

text \<open>The reference model on two images of 224 by 224 pixels returns logits \<open>[2, 2]\<close>.\<close>

theorem ViT_forward_pipeline_witness:
  "wf_vit reference_config reference_model \<and> num_patches reference_config = Inr 196
   \<and> shape (zeros [2, 3, 224, 224]) = [2, num_channels reference_config, 224, 224]
   \<and> patch_size reference_config dvd 224
   \<and> (224 div patch_size reference_config) * (224 div patch_size reference_config) = 196
   \<and> result_shape (ViT_forward reference_model (zeros [2, 3, 224, 224]) all_keep) = Inr [2, 2]"
proof -
  have w: "wf_vit reference_config reference_model"
    by (rule ViT_init_wf [OF reference_model_init])
  have s: "shape (zeros [2, 3, 224, 224]) = [2, num_channels reference_config, 224, 224]"
    by (simp add: zeros_def reference_config_def)
  have d: "patch_size reference_config dvd 224"
    by (simp add: reference_config_def)
  have n: "(224 div patch_size reference_config) * (224 div patch_size reference_config) = 196"
    by (simp add: reference_config_def)
  from ViT_forward_pipeline [OF w num_patches_reference s _ _ d d n, of all_keep]
  obtain y g2 where "ViT_forward reference_model (zeros [2, 3, 224, 224]) all_keep = Inr (y, g2)"
    "shape y = [2, num_classes reference_config]"
    by auto
  then have "result_shape (ViT_forward reference_model (zeros [2, 3, 224, 224]) all_keep) = Inr [2, 2]"
    by (simp add: result_shape_def reference_config_def)
  with w s d n num_patches_reference show ?thesis by simp
qed

text \<open>
  Claim C1, as stated, fails: divisibility by \<open>patch_size\<close> is not enough. An image of 32 by
  32 pixels gives 4 patches, and the addition of the position embedding, which has
  \<open>num_patches + 1 = 197\<close> rows, raises.
\<close>

theorem ViT_forward_other_size_counterexample:
  "patch_size reference_config dvd 32
   \<and> shape (zeros [1, 3, 32, 32]) = [1, 3, 32, 32]
   \<and> ViT_forward reference_model (zeros [1, 3, 32, 32]) all_keep = Inl RuntimeError"
proof -
  have w: "wf_vit reference_config reference_model"
    by (rule ViT_init_wf [OF reference_model_init])
  have s: "shape (zeros [1, 3, 32, 32]) = [1, num_channels reference_config, 32, 32]"
    by (simp add: zeros_def reference_config_def)
  have "ViT_forward reference_model (zeros [1, 3, 32, 32]) all_keep = Inl RuntimeError"
    by (rule ViT_forward_shape_mismatch [OF w num_patches_reference s])
       (simp_all add: reference_config_def conv_out_def)
  then show ?thesis using s by (simp add: reference_config_def)
qed

subsection \<open>Checks of the constructor\<close>




subsection \<open>The encoder and the layers of the specification: auxiliary facts\<close>




lemma shape_plus_f [simp]: "shape (plus_f a b) = shape a"
  by (simp add: plus_f_def)

lemma shape_LayerNorm_f [simp]: "shape (LayerNorm_f nrm x) = shape x"
  by (simp add: LayerNorm_f_def)













subsection \<open>The encoder stack\<close>




subsection \<open>Determinism of the forward pass in evaluation mode\<close>

text \<open>
  Claim C8. For a model in evaluation mode the outcome of the forward pass on an input is the
  same for every state of the random number generator, and the pass leaves that state as it
  is: running it twice on the same input yields identical logits. In training mode two
  successive passes on the same input may differ: they do for the small model, whose first
  pass keeps every element and whose second pass drops every element.
\<close>

theorem eval_forward_deterministic:
  "(\<not> training m \<longrightarrow>
      ViT_forward m x g' = (case ViT_forward m x g of Inl e \<Rightarrow> Inl e | Inr (y, g1) \<Rightarrow> Inr (y, g'))
      \<and> (\<forall>y g1. ViT_forward m x g = Inr (y, g1) \<longrightarrow> g1 = g))
   \<and> training tiny_model
   \<and> logit_0_0 (ViT_forward tiny_model (zeros [1, 1, 1, 1]) keep_then_drop)
       \<noteq> logit_0_0 (ViT_forward tiny_model (zeros [1, 1, 1, 1])
             (next_state (ViT_forward tiny_model (zeros [1, 1, 1, 1]) keep_then_drop)))"
proof (intro conjI impI allI)
  assume e: "\<not> training m"
  show "ViT_forward m x g' = (case ViT_forward m x g of Inl e \<Rightarrow> Inl e | Inr (y, g1) \<Rightarrow> Inr (y, g'))"
    by (rule rng_free_twice(1) [OF rng_free_ViT_forward_eval [OF e]])
  fix y g1 assume "ViT_forward m x g = Inr (y, g1)"
  then show "g1 = g"
    by (rule rng_free_twice(2) [OF rng_free_ViT_forward_eval [OF e]])
next
  show "training tiny_model" by (simp add: tiny_model_fields)
next
  from tiny_forward [of keep_then_drop] obtain y1 where y1:
    "ViT_forward tiny_model (zeros [1, 1, 1, 1]) keep_then_drop = Inr (y1, \<lambda>n. keep_then_drop (Suc n))"
    "elem y1 [0, 0] = 1 / sqrt (1 + 1 / 100000)"
    by (auto simp: keep_then_drop_def)
  from tiny_forward [of "\<lambda>n. keep_then_drop (Suc n)"] obtain y2 where y2:
    "ViT_forward tiny_model (zeros [1, 1, 1, 1]) (\<lambda>n. keep_then_drop (Suc n))
       = Inr (y2, \<lambda>n. keep_then_drop (Suc (Suc n)))"
    "elem y2 [0, 0] = 0"
    by (auto simp: keep_then_drop_def)
  have "(1::real) / sqrt (1 + 1 / 100000) \<noteq> 0" by simp
  then show "logit_0_0 (ViT_forward tiny_model (zeros [1, 1, 1, 1]) keep_then_drop)
       \<noteq> logit_0_0 (ViT_forward tiny_model (zeros [1, 1, 1, 1])
             (next_state (ViT_forward tiny_model (zeros [1, 1, 1, 1]) keep_then_drop)))"
    using y1 y2 by (simp add: logit_0_0_def next_state_def)
qed

text \<open>The small model in evaluation mode: two successive passes give the same logit.\<close>

theorem eval_forward_deterministic_witness:
  "\<not> training (ViT_eval tiny_model)
   \<and> logit_0_0 (ViT_forward (ViT_eval tiny_model) (zeros [1, 1, 1, 1]) keep_then_drop)
       = logit_0_0 (ViT_forward (ViT_eval tiny_model) (zeros [1, 1, 1, 1])
             (next_state (ViT_forward (ViT_eval tiny_model) (zeros [1, 1, 1, 1]) keep_then_drop)))"
proof -
  have e: "\<not> training (ViT_eval tiny_model)" by (simp add: ViT_eval_def)
  from eval_forward_deterministic [of "ViT_eval tiny_model" "zeros [1, 1, 1, 1]"
      "next_state (ViT_forward (ViT_eval tiny_model) (zeros [1, 1, 1, 1]) keep_then_drop)"
      keep_then_drop] e
  have "ViT_forward (ViT_eval tiny_model) (zeros [1, 1, 1, 1])
          (next_state (ViT_forward (ViT_eval tiny_model) (zeros [1, 1, 1, 1]) keep_then_drop))
        = (case ViT_forward (ViT_eval tiny_model) (zeros [1, 1, 1, 1]) keep_then_drop of
             Inl e \<Rightarrow> Inl e
           | Inr (y, g1) \<Rightarrow> Inr (y, next_state (ViT_forward (ViT_eval tiny_model) (zeros [1, 1, 1, 1]) keep_then_drop)))"
    by blast
  then have "logit_0_0 (ViT_forward (ViT_eval tiny_model) (zeros [1, 1, 1, 1]) keep_then_drop)
       = logit_0_0 (ViT_forward (ViT_eval tiny_model) (zeros [1, 1, 1, 1])
             (next_state (ViT_forward (ViT_eval tiny_model) (zeros [1, 1, 1, 1]) keep_then_drop)))"
    by (simp add: logit_0_0_def split: sum.splits prod.splits)
  with e show ?thesis by simp
qed

subsection \<open>Self-attention and the order of the sequence\<close>

text \<open>
  Claim C9. For a \<open>MultiheadSelfAttention\<close> block with parameters of the shapes of its
  configuration (and the attention dropout rate 0 its constructor sets), every input
  \<open>[B, S, E]\<close> and every permutation \<open>p\<close> of the \<open>S\<close> positions, the block applied to the
  permuted input returns the permuted result of the block applied to the input.
\<close>

theorem MultiheadSelfAttention_permutation_equivariant:
  assumes wf: "wf_msa E m" and x: "shape x = [B, S, E]" and p: "is_permutation p S"
    and d: "mha_dropout (msa m) = 0"
  shows "\<exists>y xp yp. MultiheadSelfAttention_forward m x g = Inr (y, g) \<and> shape y = [B, S, E]
    \<and> index_select_1 x p = Inr xp \<and> index_select_1 y p = Inr yp
    \<and> MultiheadSelfAttention_forward m xp g = Inr (yp, g)"
proof -
  define a where "a = msa m"
  define nrm where "nrm = msa_norm m"
  have wa: "wf_mha E a" and wn: "normalized_shape nrm = E" and ea: "mha_embed_dim a = E"
    using wf by (simp_all add: wf_msa_def a_def nrm_def wf_layer_norm_def wf_mha_def)
  from p have lp: "length p = S" and ap: "list_all (\<lambda>i. i < S) p"
    by (simp_all add: is_permutation_def)
  define xp where "xp = mk [B, S, E] (\<lambda>idx. elem x (idx[1 := p ! (idx ! 1)]))"
  define y where "y = Attention_f a (LayerNorm_f nrm x)"
  define yp where "yp = mk [B, S, E] (\<lambda>idx. elem y (idx[1 := p ! (idx ! 1)]))"
  define V where "V = (\<lambda>n idx. attn_values a S (elem n)
        (elem (mk [B, mha_num_heads a, S, S]
           (\<lambda>idx. attn_weight a S (elem n) [idx ! 0] (idx ! 1) (idx ! 2) (idx ! 3))))
        [idx ! 0] (idx ! 1) (idx ! 2))"
  have sxp: "shape xp = [B, S, E]" by (simp add: xp_def)
  have sn: "shape (LayerNorm_f nrm z) = [B, S, E]" if "shape z = [B, S, E]" for z
    using that by (simp add: LayerNorm_f_def)
  have att: "Attention_f a (LayerNorm_f nrm z)
      = mk [B, S, E] (linear_elem (out_proj a) E (elem (mk [B, S, E] (V (LayerNorm_f nrm z)))))"
    if "shape z = [B, S, E]" for z
    unfolding V_def by (rule Attention_f_unfold [OF wa sn [OF that]])
  have sy: "shape y = [B, S, E]"
    unfolding y_def att [OF x] by simp
  have f1: "MultiheadSelfAttention_forward m x g = Inr (y, g)"
    unfolding y_def a_def nrm_def by (rule MultiheadSelfAttention_forward_eq [OF wf x d])
  have f2: "MultiheadSelfAttention_forward m xp g = Inr (Attention_f a (LayerNorm_f nrm xp), g)"
    unfolding a_def nrm_def by (rule MultiheadSelfAttention_forward_eq [OF wf sxp d])
  have i1: "index_select_1 x p = Inr xp"
    using x lp ap by (simp add: index_select_1_def xp_def)
  have i2: "index_select_1 y p = Inr yp"
    using sy lp ap by (simp add: index_select_1_def yp_def)
  have p0: "permuted p B S E (elem xp) (elem x)"
    by (simp add: permuted_def xp_def elem_mk valid3)
  have p1: "permuted p B S E (elem (LayerNorm_f nrm xp)) (elem (LayerNorm_f nrm x))"
    unfolding LayerNorm_f_def sxp x
    by (rule permuted_mk [OF p permuted_layer_norm [OF p0 wn]])
  have p3: "permuted p B S E (V (LayerNorm_f nrm xp)) (V (LayerNorm_f nrm x))"
    unfolding V_def by (rule permuted_attn_values [OF p p1 ea])
  have p5: "permuted p B S E
      (linear_elem (out_proj a) E (elem (mk [B, S, E] (V (LayerNorm_f nrm xp)))))
      (linear_elem (out_proj a) E (elem (mk [B, S, E] (V (LayerNorm_f nrm x)))))"
    by (rule permuted_linear [OF permuted_mk [OF p p3]])
  have "Attention_f a (LayerNorm_f nrm xp) = yp"
    unfolding att [OF sxp] yp_def
  proof (rule mk_cong)
    fix idx assume "valid [B, S, E] idx"
    then obtain b i c where idx: "idx = [b, i, c]" "b < B" "i < S" "c < E"
      by (auto simp: valid3)
    have "elem y [b, p ! i, c]
        = linear_elem (out_proj a) E (elem (mk [B, S, E] (V (LayerNorm_f nrm x)))) [b, p ! i, c]"
      unfolding y_def att [OF x]
      using idx is_permutation_nth [OF p idx(3)] by (simp add: elem_mk valid3)
    then show "linear_elem (out_proj a) E (elem (mk [B, S, E] (V (LayerNorm_f nrm xp)))) idx
        = elem y (idx[1 := p ! (idx ! 1)])"
      using permutedD [OF p5 idx(2,3,4)] idx(1) by simp
  qed
  with f1 f2 i1 i2 sy show ?thesis by blast
qed

text \<open>Three positions rotated, \<open>p = [2, 0, 1]\<close>, for the small block.\<close>

theorem MultiheadSelfAttention_permutation_equivariant_witness:
  "wf_msa 2 tiny_msa \<and> shape ramp_input = [1, 3, 2] \<and> is_permutation [2, 0, 1] 3
   \<and> mha_dropout (msa tiny_msa) = 0
   \<and> (\<exists>y xp yp. MultiheadSelfAttention_forward tiny_msa ramp_input all_keep = Inr (y, all_keep)
        \<and> shape y = [1, 3, 2]
        \<and> index_select_1 ramp_input [2, 0, 1] = Inr xp \<and> index_select_1 y [2, 0, 1] = Inr yp
        \<and> MultiheadSelfAttention_forward tiny_msa xp all_keep = Inr (yp, all_keep))"
proof -
  have w: "wf_msa 2 tiny_msa" and d: "mha_dropout (msa tiny_msa) = 0"
    using MultiheadSelfAttention_init_wf [OF tiny_msa_init] by (simp_all add: tiny_config_def)
  have s: "shape ramp_input = [1, 3, 2]" by (simp add: ramp_input_def)
  have p: "is_permutation [2, 0, 1] 3" by (simp add: is_permutation_def)
  from MultiheadSelfAttention_permutation_equivariant [OF w s p d, of all_keep]
  show ?thesis using w s p d by blast
qed

subsection \<open>The training loop: non-finite losses\<close>




subsection \<open>The testing loop: accuracy\<close>

text \<open>
  Claim C5. When every batch of the evaluation data source yields one non-empty row of logits
  per label and the source holds at least one example, the reported accuracy is
  100 times the number of examples whose predicted class (the arg-max of the logits, as
  \<open>torch.max\<close> computes it) equals the label, divided by the number of examples.
\<close>

theorem test_accuracy_formula:
  "list_all (well_batched vt) batches \<Longrightarrow> examples vt batches \<noteq> [] \<Longrightarrow>
   test_accuracy vt batches =
     Inr (100 * real (length (filter hit (examples vt batches))) / real (length (examples vt batches)))"
  by (simp add: test_accuracy_def test_loop_counts)

text \<open>
  The example of the specification: labels 0, 1, 0, 1 and logits whose predictions are
  0, 1, 1, 1 report 75.
\<close>

theorem test_accuracy_formula_witness:
  "list_all (well_batched (\<lambda>u::unit. Inr [[1, 0], [0, 1], [0, 1], [0, 1::real]])) [((), [0, 1, 0, 1])]
   \<and> examples (\<lambda>u::unit. Inr [[1, 0], [0, 1], [0, 1], [0, 1::real]]) [((), [0, 1, 0, 1])] \<noteq> []
   \<and> test_accuracy (\<lambda>u::unit. Inr [[1, 0], [0, 1], [0, 1], [0, 1::real]]) [((), [0, 1, 0, 1])] = Inr 75"
  using test_accuracy_formula [of "\<lambda>u::unit. Inr [[1, 0], [0, 1], [0, 1], [0, 1::real]]" "[((), [0, 1, 0, 1])]"]
  by (simp add: well_batched_def hit_def argmax_row_def)






end
